theory Spec2Isabelle
  imports Complex_Main "HOL-Library.Sublist" "HOL-Library.AList"
begin

section \<open>Python strings and the regular expressions of the text cleaner\<close>

text \<open>
  A Python \<open>str\<close> is modelled as a \<open>string\<close> whose characters are the code points
  below 256 (ASCII and the Latin-1 supplement, which holds the French accents of the
  messages). On such text \<open>unicodedata.normalize("NFC", _)\<close> is the identity, and
  \<open>len\<close> is \<open>length\<close>. \<open>ord\<close> is the code point.
\<close>

definition ord :: "char \<Rightarrow> nat" where
  "ord c = of_char c"

text \<open>\<open>str.isspace\<close> on one character, which is also the whitespace class of a str pattern.\<close>

definition isspace :: "char \<Rightarrow> bool" where
  "isspace c = (let n = ord c in
     (9 \<le> n \<and> n \<le> 13) \<or> (28 \<le> n \<and> n \<le> 32) \<or> n = 133 \<or> n = 160)"

text \<open>The word class of a str pattern: alphanumeric code points and the underscore.\<close>

definition isword :: "char \<Rightarrow> bool" where
  "isword c = (let n = ord c in
     (48 \<le> n \<and> n \<le> 57) \<or> (65 \<le> n \<and> n \<le> 90) \<or> n = 95 \<or> (97 \<le> n \<and> n \<le> 122) \<or>
     n = 170 \<or> n = 178 \<or> n = 179 \<or> n = 181 \<or> n = 185 \<or> n = 186 \<or>
     (188 \<le> n \<and> n \<le> 190) \<or> (192 \<le> n \<and> n \<le> 214) \<or> (216 \<le> n \<and> n \<le> 246) \<or> 248 \<le> n)"

definition nfc :: "string \<Rightarrow> string" where
  "nfc s = s"

definition lstrip :: "string \<Rightarrow> string" where
  "lstrip s = dropWhile isspace s"

definition rstrip :: "string \<Rightarrow> string" where
  "rstrip s = rev (dropWhile isspace (rev s))"

definition strip :: "string \<Rightarrow> string" where
  "strip s = lstrip (rstrip s)"

text \<open>\<open>s.split(c)\<close> for a one-character separator, and \<open>sep.join(parts)\<close>.\<close>

fun split_on :: "char \<Rightarrow> string \<Rightarrow> string list" where
  "split_on c [] = [[]]"
| "split_on c (x # xs) =
     (if x = c then [] # split_on c xs
      else (case split_on c xs of l # ls \<Rightarrow> (x # l) # ls | [] \<Rightarrow> [[x]]))"

fun join :: "string \<Rightarrow> string list \<Rightarrow> string" where
  "join sep [] = []"
| "join sep [x] = x"
| "join sep (x # y # ys) = x @ sep @ join sep (y # ys)"

text \<open>\<open>sub in s\<close> on strings.\<close>

fun contains :: "string \<Rightarrow> string \<Rightarrow> bool" where
  "contains [] sub = (sub = [])"
| "contains (c # cs) sub = (prefix sub (c # cs) \<or> contains cs sub)"

text \<open>
  \<open>pattern.sub(repl, s)\<close> for a pattern that cannot match the empty string. The matcher
  gives the length of the match that starts at the head of its argument, if there is one.
  Scanning goes left to right; a match is replaced and scanning resumes behind it (the
  counter is the number of matched characters still to be skipped).
\<close>

fun re_sub :: "(string \<Rightarrow> nat option) \<Rightarrow> string \<Rightarrow> nat \<Rightarrow> string \<Rightarrow> string" where
  "re_sub m repl skip [] = []"
| "re_sub m repl (Suc n) (c # cs) = re_sub m repl n cs"
| "re_sub m repl 0 (c # cs) =
     (case m (c # cs) of
        Some (Suc n) \<Rightarrow> repl @ re_sub m repl n cs
      | _ \<Rightarrow> c # re_sub m repl 0 cs)"

text \<open>\<open>MULTIPLE_SPACES\<close>, one or more whitespace characters: the maximal run of whitespace.\<close>

definition MULTIPLE_SPACES :: "string \<Rightarrow> nat option" where
  "MULTIPLE_SPACES s = (let n = length (takeWhile isspace s) in if n = 0 then None else Some n)"

text \<open>\<open>MULTIPLE_NEWLINES\<close>, three or more newlines: the maximal run of newlines, if that long.\<close>

definition MULTIPLE_NEWLINES :: "string \<Rightarrow> nat option" where
  "MULTIPLE_NEWLINES s =
     (let n = length (takeWhile (\<lambda>c. c = CHR ''\<newline>'') s) in if n < 3 then None else Some n)"

text \<open>
  \<open>URL_PATTERN\<close>: \<open>http\<close>, an optional \<open>s\<close>, \<open>://\<close>, then a greedy repetition of one
  character: a letter, a digit, a character of the class with the range from dollar
  (36) to underscore (95) and the characters at, dot, ampersand and plus, or one of
  exclamation mark, star, backslash, parentheses and comma. The last alternative of the
  source, a percent escape, is never reached: the percent sign (37) lies in the range
  from dollar to underscore, so the third alternative takes it.
\<close>

definition url_char :: "char \<Rightarrow> bool" where
  "url_char c = (let n = ord c in
     (97 \<le> n \<and> n \<le> 122) \<or> (65 \<le> n \<and> n \<le> 90) \<or> (48 \<le> n \<and> n \<le> 57) \<or>
     (36 \<le> n \<and> n \<le> 95) \<or> c \<in> set ''@.&+'' \<or> c \<in> set ''!*(),'' \<or> c = CHR 0x5C)"

definition URL_PATTERN :: "string \<Rightarrow> nat option" where
  "URL_PATTERN s =
     (let body = (\<lambda>p. let n = length (takeWhile url_char (drop p s))
                       in if n = 0 then None else Some (p + n))
      in if prefix ''https://'' s then body 8
         else if prefix ''http://'' s then body 7
         else None)"

text \<open>
  \<open>EMAIL_PATTERN\<close>: a run of word characters, dots and hyphens, an at sign, a second
  such run, a dot and a run of word characters. The local part is the maximal run and
  must be followed by the at sign. The domain run is then given back character by
  character until a dot followed by a word character is found, so the last such dot of
  the run (not its first character) is the one the pattern's dot matches.
\<close>

definition email_char :: "char \<Rightarrow> bool" where
  "email_char c = (isword c \<or> c = CHR ''.'' \<or> c = CHR ''-'')"

definition email_domain :: "string \<Rightarrow> nat option" where
  "email_domain t =
     (let r = takeWhile email_char t;
          cands = filter (\<lambda>i. r ! i = CHR ''.'' \<and> isword (r ! Suc i)) [1 ..< length r - 1]
      in if cands = [] then None
         else (let i = last cands
               in Some (Suc i + length (takeWhile isword (drop (Suc i) r)))))"

definition EMAIL_PATTERN :: "string \<Rightarrow> nat option" where
  "EMAIL_PATTERN s =
     (let l = takeWhile email_char s
      in if l = [] then None
         else (case drop (length l) s of
                 [] \<Rightarrow> None
               | c # t \<Rightarrow>
                   if c = CHR ''@''
                   then (case email_domain t of
                           None \<Rightarrow> None
                         | Some n \<Rightarrow> Some (length l + 1 + n))
                   else None))"

text \<open>
  \<open>SPECIAL_CHARS\<close>: one character that is neither a word character, nor whitespace, nor
  punctuation of the listed kind, nor in U+00C0..U+017F.
\<close>

definition special_char :: "char \<Rightarrow> bool" where
  "special_char c =
     (\<not> (isword c \<or> isspace c \<or> c \<in> set ''-.,;:!?()'' \<or> c = CHR 0x27 \<or> c = CHR 0x22
         \<or> 192 \<le> ord c))"

definition SPECIAL_CHARS :: "string \<Rightarrow> nat option" where
  "SPECIAL_CHARS s = (case s of [] \<Rightarrow> None | c # _ \<Rightarrow> if special_char c then Some 1 else None)"

text \<open>
  The pattern of \<open>remove_html_tags\<close>: an opening angle bracket, one or more characters
  other than the closing bracket, and the closing bracket.
\<close>

definition html_tag :: "string \<Rightarrow> nat option" where
  "html_tag s =
     (case s of
        [] \<Rightarrow> None
      | c # t \<Rightarrow>
          if c = CHR ''<''
          then (let n = length (takeWhile (\<lambda>x. x \<noteq> CHR ''>'') t)
                in if 0 < n \<and> n < length t then Some (n + 2) else None)
          else None)"

section \<open>TextCleaner\<close>

record text_cleaner =
  remove_urls :: bool
  remove_emails :: bool
  normalize_whitespace :: bool
  remove_special_chars :: bool
  min_line_length :: int

text \<open>The defaults of \<open>TextCleaner.__init__\<close>.\<close>

definition TextCleaner :: text_cleaner where
  "TextCleaner = \<lparr>remove_urls = True, remove_emails = True, normalize_whitespace = True,
     remove_special_chars = False, min_line_length = 3\<rparr>"

text \<open>\<open>_normalize_whitespace\<close>: first the whitespace runs, then the newline runs.\<close>

definition normalize_whitespace_text :: "string \<Rightarrow> string" where
  "normalize_whitespace_text text =
     (let text1 = re_sub MULTIPLE_SPACES '' '' 0 text;
          text2 = re_sub MULTIPLE_NEWLINES ''\<newline>\<newline>'' 0 text1
      in text2)"

definition filter_short_lines :: "text_cleaner \<Rightarrow> string \<Rightarrow> string" where
  "filter_short_lines self text =
     (let lines = split_on CHR ''\<newline>'' text;
          filtered = filter (\<lambda>line. int (length (strip line)) \<ge> min_line_length self
                                      \<or> strip line = []) lines
      in join ''\<newline>'' filtered)"

definition clean :: "text_cleaner \<Rightarrow> string option \<Rightarrow> string" where
  "clean self text =
     (case text of
        None \<Rightarrow> []
      | Some t \<Rightarrow>
          if t = [] then []
          else
            (let cleaned = nfc t;
                 cleaned = (if remove_urls self then re_sub URL_PATTERN '' '' 0 cleaned
                            else cleaned);
                 cleaned = (if remove_emails self then re_sub EMAIL_PATTERN ''[EMAIL]'' 0 cleaned
                            else cleaned);
                 cleaned = (if remove_special_chars self then re_sub SPECIAL_CHARS '' '' 0 cleaned
                            else cleaned);
                 cleaned = (if normalize_whitespace self then normalize_whitespace_text cleaned
                            else cleaned);
                 cleaned = (if min_line_length self > 0 then filter_short_lines self cleaned
                            else cleaned)
             in strip cleaned))"

definition remove_html_tags :: "string \<Rightarrow> string" where
  "remove_html_tags text = re_sub html_tag '' '' 0 text"

section \<open>Values, exceptions and the state of the program\<close>

text \<open>
  An exception is a value; \<open>str_of\<close> is Python's \<open>str(e)\<close>. \<open>ValueError\<close> is the one
  the code raises itself (a missing API key, an unreadable file); the other two stand for
  what the OpenAI and Chroma libraries raise.
\<close>

datatype error = ValueError string | AuthenticationError string | BackendError string

fun str_of :: "error \<Rightarrow> string" where
  "str_of (ValueError m) = m"
| "str_of (AuthenticationError m) = m"
| "str_of (BackendError m) = m"

datatype level = DEBUG | INFO | WARNING | ERROR

text \<open>Metadata values are strings or integers; a metadata dict keeps its insertion order.\<close>

datatype scalar = S string | I int

record document =
  page_content :: string
  metadata :: "(string \<times> scalar) list"

datatype chat_message = SystemMessage string | HumanMessage string | AIMessage string

record settings =
  openai_api_key :: string
  retriever_k :: int

record file_info =
  name :: string
  path :: string
  extension :: string
  file_size :: int
  file_hash :: string
  uploaded_at :: int

record rag_response =
  answer :: string
  sources :: "document list"
  has_context :: bool

record processing_result =
  success :: bool
  source_id :: string
  chunks_count :: int
  message :: string

text \<open>
  Everything the program mutates: the log (in order), the persisted Chroma collection
  with the counter its identifiers come from, the three lazily created clients
  (\<open>_embeddings\<close>, \<open>_vectorstore\<close>, \<open>_client\<close>: loaded or still \<open>None\<close>), and the
  calls made to the chat model.
\<close>

record world =
  logged :: "(level \<times> string) list"
  collection :: "(nat \<times> document) list"
  next_id :: nat
  embeddings_loaded :: bool
  vectorstore_loaded :: bool
  client_loaded :: bool
  invoke_calls :: "chat_message list list"
  stream_calls :: "chat_message list list"

text \<open>
  What the libraries answer, as parameters: the settings, the OpenAI embedding and chat
  endpoints, Chroma's nearest-neighbour search over the collection, the error it raises
  when asked to insert an empty batch, the failure (if any) of the collection's
  \<open>get\<close>, \<open>delete\<close> and \<open>count\<close>, the text splitter, the file
  store, BeautifulSoup and pandas. A distance is a rational: every finite float is one,
  and on floats the comparison with the literal 0.3 holds exactly when the score is at
  most 3/10.
\<close>

record env =
  settings :: settings
  embed_query :: "string \<Rightarrow> error + rat list"
  embed_documents :: "string list \<Rightarrow> error + rat list list"
  similarity_search ::
    "(nat \<times> document) list \<Rightarrow> string \<Rightarrow> int \<Rightarrow> (string \<times> scalar) list option
       \<Rightarrow> error + document list"
  similarity_search_with_score ::
    "(nat \<times> document) list \<Rightarrow> string \<Rightarrow> int \<Rightarrow> error + (document \<times> rat) list"
  empty_batch_fault :: error
  collection_get_fault :: "error option"
  collection_delete_fault :: "error option"
  collection_count_fault :: "error option"
  chat_invoke :: "chat_message list \<Rightarrow> error + string"
  chat_stream :: "chat_message list \<Rightarrow> string list \<times> error option"
  splitter_split_text :: "string \<Rightarrow> string list"
  get_file_content :: "string \<Rightarrow> string option"
  soup_get_text :: "string \<Rightarrow> error + string"
  read_csv_text :: "string \<Rightarrow> error + string"

text \<open>
  A call either returns or raises, and changes the state in both cases. A generator is
  modelled run to its end: what it yielded, then its return value or the exception
  that ended it.
\<close>

type_synonym 'a comp = "world \<Rightarrow> (error + 'a) \<times> world"

type_synonym 'a gen = "world \<Rightarrow> (string list \<times> (error + 'a)) \<times> world"

definition ret :: "'a \<Rightarrow> 'a comp" where
  "ret x = (\<lambda>w. (Inr x, w))"

definition raise :: "error \<Rightarrow> 'a comp" where
  "raise e = (\<lambda>w. (Inl e, w))"

definition lift :: "error + 'a \<Rightarrow> 'a comp" where
  "lift r = (\<lambda>w. (r, w))"

definition bind :: "'a comp \<Rightarrow> ('a \<Rightarrow> 'b comp) \<Rightarrow> 'b comp" where
  "bind m f = (\<lambda>w. case m w of (Inl e, w') \<Rightarrow> (Inl e, w') | (Inr x, w') \<Rightarrow> f x w')"

definition try_except :: "'a comp \<Rightarrow> (error \<Rightarrow> 'a comp) \<Rightarrow> 'a comp" where
  "try_except m h = (\<lambda>w. case m w of (Inl e, w') \<Rightarrow> h e w' | (Inr x, w') \<Rightarrow> (Inr x, w'))"

definition logger :: "level \<Rightarrow> string \<Rightarrow> unit comp" where
  "logger lvl msg = (\<lambda>w. (Inr (), w\<lparr>logged := logged w @ [(lvl, msg)]\<rparr>))"

text \<open>\<open>str(n)\<close> for an integer, as the f-strings print it.\<close>

function str_nat :: "nat \<Rightarrow> string" where
  "str_nat n = (if n < 10 then [char_of (48 + n)]
                else str_nat (n div 10) @ [char_of (48 + n mod 10)])"
  by pat_completeness auto
termination
  by (relation "measure (\<lambda>n. n)") auto

declare str_nat.simps [simp del]

definition str_int :: "int \<Rightarrow> string" where
  "str_int i = (if i < 0 then ''-'' @ str_nat (nat (- i)) else str_nat (nat i))"

fun str_scalar :: "scalar \<Rightarrow> string" where
  "str_scalar (S s) = s"
| "str_scalar (I i) = str_int i"

text \<open>\<open>k or default\<close>: \<open>None\<close> and 0 are both falsy.\<close>

definition or_default :: "int option \<Rightarrow> int \<Rightarrow> int" where
  "or_default k d = (case k of None \<Rightarrow> d | Some n \<Rightarrow> if n = 0 then d else n)"

text \<open>\<open>xs[:k]\<close>: a negative bound counts from the end.\<close>

definition slice_to :: "'a list \<Rightarrow> int \<Rightarrow> 'a list" where
  "slice_to xs k = (if 0 \<le> k then take (nat k) xs else take (length xs - nat (- k)) xs)"

text \<open>The accented letters and the quote of the messages.\<close>

definition e_acute :: string where "e_acute = [CHR 0xE9]"
definition e_grave :: string where "e_grave = [CHR 0xE8]"
definition a_grave :: string where "a_grave = [CHR 0xE0]"
definition quote :: string where "quote = [CHR 0x27]"

definition KEY_MISSING :: string where
  "KEY_MISSING = ''La cl'' @ e_acute @ '' API OpenAI n'est pas configur'' @ e_acute @ ''e. ''
     @ ''Veuillez d'' @ e_acute @ ''finir OPENAI_API_KEY dans le fichier .env''"

section \<open>EmbeddingsManager\<close>

text \<open>The \<open>embeddings\<close> property: created on first use, which needs the API key.\<close>

definition embeddings :: "env \<Rightarrow> unit comp" where
  "embeddings E = (\<lambda>w.
     if embeddings_loaded w then (Inr (), w)
     else if openai_api_key (settings E) = [] then (Inl (ValueError KEY_MISSING), w)
     else (Inr (), w\<lparr>embeddings_loaded := True\<rparr>))"

definition embed_text :: "env \<Rightarrow> string \<Rightarrow> rat list comp" where
  "embed_text E text =
     try_except
       (bind (logger DEBUG (''G'' @ e_acute @ ''n'' @ e_acute @ ''ration de l'embedding pour ''
                @ str_nat (length text) @ '' caract'' @ e_grave @ ''res''))
          (\<lambda>_. bind (embeddings E) (\<lambda>_. lift (embed_query E text))))
       (\<lambda>e. bind (logger ERROR (''Erreur lors de la g'' @ e_acute @ ''n'' @ e_acute
                      @ ''ration de l'embedding: '' @ str_of e))
               (\<lambda>_. raise e))"

definition embed_texts :: "env \<Rightarrow> string list \<Rightarrow> rat list list comp" where
  "embed_texts E texts =
     try_except
       (bind (logger DEBUG (''G'' @ e_acute @ ''n'' @ e_acute @ ''ration des embeddings pour ''
                @ str_nat (length texts) @ '' textes''))
          (\<lambda>_. bind (embeddings E) (\<lambda>_. lift (embed_documents E texts))))
       (\<lambda>e. bind (logger ERROR (''Erreur lors de la g'' @ e_acute @ ''n'' @ e_acute
                      @ ''ration des embeddings: '' @ str_of e))
               (\<lambda>_. raise e))"

section \<open>VectorStoreManager\<close>

text \<open>The \<open>vectorstore\<close> property: loading the store asks for the embeddings object.\<close>

definition vectorstore :: "env \<Rightarrow> unit comp" where
  "vectorstore E = (\<lambda>w.
     if vectorstore_loaded w then (Inr (), w)
     else bind (embeddings E)
            (\<lambda>_. bind (\<lambda>w'. (Inr (), w'\<lparr>vectorstore_loaded := True\<rparr>))
               (\<lambda>_. logger DEBUG (''Base vectorielle charg'' @ e_acute @ ''e/cr''
                                     @ e_acute @ e_acute @ ''e''))) w)"

text \<open>
  The collection: insertion embeds the texts, refuses an empty batch, and gives each
  record a fresh identifier; \<open>get\<close> returns the identifiers of the records a
  \<open>where\<close> condition selects (all of them without one); \<open>delete\<close> removes the
  records with the given identifiers.
\<close>

definition chroma_add_documents :: "env \<Rightarrow> document list \<Rightarrow> nat list comp" where
  "chroma_add_documents E docs = (\<lambda>w.
     case embed_documents E (map page_content docs) of
       Inl e \<Rightarrow> (Inl e, w)
     | Inr _ \<Rightarrow>
         if docs = [] then (Inl (empty_batch_fault E), w)
         else (let ids = [next_id w ..< next_id w + length docs]
               in (Inr ids, w\<lparr>collection := collection w @ zip ids docs,
                               next_id := next_id w + length docs\<rparr>)))"

definition selected :: "(string \<times> scalar) option \<Rightarrow> document \<Rightarrow> bool" where
  "selected cond d = (case cond of None \<Rightarrow> True | Some (k, v) \<Rightarrow> map_of (metadata d) k = Some v)"

definition collection_get :: "env \<Rightarrow> (string \<times> scalar) option \<Rightarrow> nat list comp" where
  "collection_get E cond = (\<lambda>w.
     case collection_get_fault E of
       Some e \<Rightarrow> (Inl e, w)
     | None \<Rightarrow> (Inr (map fst (filter (\<lambda>r. selected cond (snd r)) (collection w))), w))"

definition collection_delete :: "env \<Rightarrow> nat list \<Rightarrow> unit comp" where
  "collection_delete E ids = (\<lambda>w.
     case collection_delete_fault E of
       Some e \<Rightarrow> (Inl e, w)
     | None \<Rightarrow> (Inr (), w\<lparr>collection := filter (\<lambda>r. fst r \<notin> set ids) (collection w)\<rparr>))"

definition collection_count :: "env \<Rightarrow> int comp" where
  "collection_count E = (\<lambda>w.
     case collection_count_fault E of
       Some e \<Rightarrow> (Inl e, w)
     | None \<Rightarrow> (Inr (int (length (collection w))), w))"

definition add_documents :: "env \<Rightarrow> document list \<Rightarrow> string option \<Rightarrow> nat list comp" where
  "add_documents E documents src =
     try_except
       (let documents =
              (case src of
                 None \<Rightarrow> documents
               | Some sid \<Rightarrow>
                   if sid = [] then documents
                   else map (\<lambda>doc. doc\<lparr>metadata := AList.update ''source_id'' (S sid)
                                                       (metadata doc)\<rparr>) documents)
        in bind (logger INFO (''Ajout de '' @ str_nat (length documents) @ '' documents ''
                              @ a_grave @ '' la base''))
             (\<lambda>_. bind (vectorstore E)
                (\<lambda>_. bind (chroma_add_documents E documents)
                   (\<lambda>ids. bind (logger INFO (str_nat (length ids) @ '' documents ajout''
                                   @ e_acute @ ''s avec succ'' @ e_grave @ ''s''))
                      (\<lambda>_. ret ids)))))
       (\<lambda>e. bind (logger ERROR (''Erreur lors de l'ajout des documents: '' @ str_of e))
               (\<lambda>_. raise e))"

definition search ::
  "env \<Rightarrow> string \<Rightarrow> int option \<Rightarrow> (string \<times> scalar) list option \<Rightarrow> document list comp" where
  "search E query k filter_dict =
     try_except
       (let k = or_default k (retriever_k (settings E))
        in bind (logger DEBUG (''Recherche: '' @ quote @ take 50 query @ ''...'' @ quote
                                @ '' (k='' @ str_int k @ '')''))
             (\<lambda>_. bind (vectorstore E)
                (\<lambda>_. bind (\<lambda>w. (similarity_search E (collection w) query k filter_dict, w))
                   (\<lambda>results. bind (logger DEBUG (str_nat (length results) @ '' documents trouv''
                                       @ e_acute @ ''s''))
                      (\<lambda>_. ret results)))))
       (\<lambda>e. bind (logger ERROR (''Erreur lors de la recherche: '' @ str_of e))
               (\<lambda>_. raise e))"

definition search_with_scores ::
  "env \<Rightarrow> string \<Rightarrow> int option \<Rightarrow> (document \<times> rat) list comp" where
  "search_with_scores E query k =
     try_except
       (let k = or_default k (retriever_k (settings E))
        in bind (vectorstore E)
             (\<lambda>_. bind (\<lambda>w. (similarity_search_with_score E (collection w) query k, w))
                (\<lambda>results. ret results)))
       (\<lambda>e. bind (logger ERROR (''Erreur lors de la recherche avec scores: '' @ str_of e))
               (\<lambda>_. raise e))"

definition delete_by_source :: "env \<Rightarrow> string \<Rightarrow> bool comp" where
  "delete_by_source E src =
     try_except
       (bind (logger INFO (''Suppression des documents de la source: '' @ src))
          (\<lambda>_. bind (vectorstore E)
             (\<lambda>_. bind (collection_get E (Some (''source_id'', S src)))
                (\<lambda>ids. if ids \<noteq> []
                   then bind (collection_delete E ids)
                          (\<lambda>_. bind (logger INFO (str_nat (length ids) @ '' documents supprim''
                                         @ e_acute @ ''s''))
                             (\<lambda>_. ret True))
                   else bind (logger WARNING (''Aucun document trouv'' @ e_acute
                                 @ '' pour la source: '' @ src))
                          (\<lambda>_. ret False)))))
       (\<lambda>e. bind (logger ERROR (''Erreur lors de la suppression: '' @ str_of e))
               (\<lambda>_. raise e))"

definition get_document_count :: "env \<Rightarrow> int comp" where
  "get_document_count E =
     try_except
       (bind (vectorstore E) (\<lambda>_. collection_count E))
       (\<lambda>e. bind (logger ERROR (''Erreur lors du comptage: '' @ str_of e))
               (\<lambda>_. ret 0))"

definition clear :: "env \<Rightarrow> bool comp" where
  "clear E =
     try_except
       (bind (logger WARNING ''Suppression de tous les documents de la base'')
          (\<lambda>_. bind (vectorstore E)
             (\<lambda>_. bind (collection_get E None)
                (\<lambda>ids. bind (if ids \<noteq> []
                              then bind (collection_delete E ids)
                                     (\<lambda>_. logger INFO (str_nat (length ids)
                                            @ '' documents supprim'' @ e_acute @ ''s''))
                              else ret ())
                   (\<lambda>_. ret True)))))
       (\<lambda>e. bind (logger ERROR (''Erreur lors de la suppression totale: '' @ str_of e))
               (\<lambda>_. ret False))"

section \<open>LLMClient\<close>

text \<open>The \<open>client\<close> property: created on first use, which needs the API key.\<close>

definition client :: "env \<Rightarrow> unit comp" where
  "client E = (\<lambda>w.
     if client_loaded w then (Inr (), w)
     else if openai_api_key (settings E) = [] then (Inl (ValueError KEY_MISSING), w)
     else (Inr (), w\<lparr>client_loaded := True\<rparr>))"

text \<open>The message list both \<open>invoke\<close> and \<open>stream\<close> build: an empty system prompt is falsy.\<close>

definition build_messages :: "string \<Rightarrow> string option \<Rightarrow> chat_message list" where
  "build_messages prompt system_prompt =
     (case system_prompt of
        None \<Rightarrow> []
      | Some sp \<Rightarrow> if sp = [] then [] else [SystemMessage sp])
     @ [HumanMessage prompt]"

definition invoke :: "env \<Rightarrow> string \<Rightarrow> string option \<Rightarrow> string comp" where
  "invoke E prompt system_prompt =
     try_except
       (let messages = build_messages prompt system_prompt
        in bind (logger DEBUG (''Envoi de la requ'' @ [CHR 0xEA] @ ''te au LLM (''
                   @ str_nat (length prompt) @ '' caract'' @ e_grave @ ''res)''))
             (\<lambda>_. bind (client E)
                (\<lambda>_. bind (\<lambda>w. (chat_invoke E messages,
                                  w\<lparr>invoke_calls := invoke_calls w @ [messages]\<rparr>))
                   (\<lambda>response. bind (logger DEBUG (''R'' @ e_acute @ ''ponse re'' @ [CHR 0xE7]
                                        @ ''ue ('' @ str_nat (length response) @ '' caract''
                                        @ e_grave @ ''res)''))
                      (\<lambda>_. ret response)))))
       (\<lambda>e. bind (logger ERROR (''Erreur lors de l'appel au LLM: '' @ str_of e))
               (\<lambda>_. raise e))"

text \<open>
  \<open>stream\<close>: the backend gives its chunks and then ends, normally or with an exception;
  a chunk with empty content is not yielded.
\<close>

definition stream :: "env \<Rightarrow> string \<Rightarrow> string option \<Rightarrow> unit gen" where
  "stream E prompt system_prompt = (\<lambda>w.
     let messages = build_messages prompt system_prompt;
         failed = (\<lambda>e w'. snd (logger ERROR (''Erreur lors du streaming: '' @ str_of e) w'))
     in case bind (logger DEBUG (''D'' @ e_acute @ ''but du streaming de la r'' @ e_acute
                      @ ''ponse''))
               (\<lambda>_. client E) w of
          (Inl e, w0) \<Rightarrow> (([], Inl e), failed e w0)
        | (Inr _, w0) \<Rightarrow>
            (let w1 = w0\<lparr>stream_calls := stream_calls w0 @ [messages]\<rparr>;
                 yielded = filter (\<lambda>content. content \<noteq> []) (fst (chat_stream E messages))
             in case snd (chat_stream E messages) of
                  None \<Rightarrow> ((yielded, Inr ()), w1)
                | Some e \<Rightarrow> ((yielded, Inl e), failed e w1)))"

section \<open>RAGChain\<close>

definition SYSTEM_PROMPT_format :: "string \<Rightarrow> string \<Rightarrow> string" where
  "SYSTEM_PROMPT_format context question =
     ''Tu es un assistant juridique expert travaillant pour le cabinet Parenti & Associ''
     @ e_acute @ ''s,\<newline>sp'' @ e_acute @ ''cialis'' @ e_acute
     @ '' en droit des affaires. Tu r'' @ e_acute
     @ ''ponds uniquement en te basant sur les documents fournis dans le contexte.\<newline>''
     @ ''\<newline>Directives:\<newline>1. Base tes r'' @ e_acute
     @ ''ponses EXCLUSIVEMENT sur les documents fournis\<newline>''
     @ ''2. Si l'information n'est pas dans les documents, indique-le clairement\<newline>''
     @ ''3. Cite les sources pertinentes dans ta r'' @ e_acute @ ''ponse\<newline>''
     @ ''4. Adopte un ton professionnel et pr'' @ e_acute @ ''cis\<newline>''
     @ ''5. Structure ta r'' @ e_acute @ ''ponse de mani'' @ e_grave @ ''re claire\<newline>''
     @ ''\<newline>Contexte documentaire:\<newline>'' @ context
     @ ''\<newline>\<newline>Question du collaborateur: '' @ question
     @ ''\<newline>\<newline>R'' @ e_acute @ ''ponse:''"

definition NO_CONTEXT_MESSAGE :: string where
  "NO_CONTEXT_MESSAGE =
     ''Je n'ai pas trouv'' @ e_acute
     @ '' d'information pertinente dans la base documentaire\<newline>pour r'' @ e_acute
     @ ''pondre '' @ a_grave @ '' cette question. Veuillez reformuler votre question ou v''
     @ e_acute @ ''rifier que les documents\<newline>n'' @ e_acute @ ''cessaires ont ''
     @ e_acute @ ''t'' @ e_acute @ '' index'' @ e_acute @ ''s.''"

definition MIN_RELEVANCE_SCORE :: rat where
  "MIN_RELEVANCE_SCORE = 3 / 10"

text \<open>
  The selection of \<open>query\<close> and \<open>query_stream\<close> (the same two statements in both): the
  results within the threshold, or, when there is none but something was retrieved, the
  first \<open>k\<close> results.
\<close>

definition relevant_docs :: "(document \<times> rat) list \<Rightarrow> int \<Rightarrow> document list" where
  "relevant_docs results_with_scores k =
     (let relevant = map fst (filter (\<lambda>(doc, score). score \<le> MIN_RELEVANCE_SCORE)
                                 results_with_scores)
      in if relevant = [] \<and> results_with_scores \<noteq> []
         then map fst (slice_to results_with_scores k)
         else relevant)"

definition build_context :: "document list \<Rightarrow> string" where
  "build_context documents =
     join ''\<newline>---\<newline>''
       (map (\<lambda>(i, doc).
               ''[Document '' @ str_nat i @ '' - Source: ''
               @ str_scalar (case map_of (metadata doc) ''source_id'' of
                               None \<Rightarrow> S ''Document inconnu''
                             | Some v \<Rightarrow> v)
               @ '']\<newline>'' @ page_content doc @ ''\<newline>'')
          (zip [1 ..< Suc (length documents)] documents))"

definition query :: "env \<Rightarrow> string \<Rightarrow> int option \<Rightarrow> rag_response comp" where
  "query E question k =
     try_except
       (let k = or_default k (retriever_k (settings E))
        in bind (logger DEBUG (''Recherche de contexte pour: '' @ quote @ take 50 question
                                @ ''...'' @ quote))
             (\<lambda>_. bind (search_with_scores E question (Some k))
                (\<lambda>results_with_scores.
                   let relevant = relevant_docs results_with_scores k
                   in if relevant = []
                      then bind (logger WARNING (''Aucun document pertinent trouv'' @ e_acute))
                             (\<lambda>_. ret \<lparr>answer = NO_CONTEXT_MESSAGE, sources = [],
                                        has_context = False\<rparr>)
                      else (let context = build_context relevant;
                                prompt = SYSTEM_PROMPT_format context question
                            in bind (logger DEBUG (''G'' @ e_acute @ ''n'' @ e_acute
                                       @ ''ration de la r'' @ e_acute @ ''ponse''))
                                 (\<lambda>_. bind (invoke E prompt None)
                                    (\<lambda>a. ret \<lparr>answer = a, sources = relevant,
                                              has_context = True\<rparr>))))))
       (\<lambda>e. bind (logger ERROR (''Erreur lors du traitement de la question: '' @ str_of e))
               (\<lambda>_. raise e))"

definition query_stream :: "env \<Rightarrow> string \<Rightarrow> int option \<Rightarrow> rag_response gen" where
  "query_stream E question k = (\<lambda>w.
     let k = or_default k (retriever_k (settings E));
         failed = (\<lambda>e w'. snd (logger ERROR (''Erreur lors du streaming: '' @ str_of e) w'))
     in case search_with_scores E question (Some k) w of
          (Inl e, w1) \<Rightarrow> (([], Inl e), failed e w1)
        | (Inr results_with_scores, w1) \<Rightarrow>
            (let relevant = relevant_docs results_with_scores k
             in if relevant = []
                then (([NO_CONTEXT_MESSAGE],
                       Inr \<lparr>answer = NO_CONTEXT_MESSAGE, sources = [], has_context = False\<rparr>),
                      w1)
                else (let context = build_context relevant;
                          prompt = SYSTEM_PROMPT_format context question
                      in case stream E prompt None w1 of
                           ((full_response, Inl e), w2) \<Rightarrow>
                             ((full_response, Inl e), failed e w2)
                         | ((full_response, Inr _), w2) \<Rightarrow>
                             ((full_response,
                               Inr \<lparr>answer = concat full_response, sources = relevant,
                                    has_context = True\<rparr>), w2))))"

definition is_ready :: "env \<Rightarrow> bool comp" where
  "is_ready E = bind (get_document_count E) (\<lambda>n. ret (n > 0))"

section \<open>DocumentProcessor\<close>

definition extract_from_html :: "env \<Rightarrow> string \<Rightarrow> string comp" where
  "extract_from_html E html_content =
     (case soup_get_text E html_content of
        Inr text \<Rightarrow> ret text
      | Inl e \<Rightarrow> bind (logger WARNING (''Erreur parsing HTML: '' @ str_of e))
                   (\<lambda>_. ret (remove_html_tags html_content)))"

definition extract_from_csv :: "env \<Rightarrow> string \<Rightarrow> string comp" where
  "extract_from_csv E file_path =
     (case read_csv_text E file_path of
        Inr text \<Rightarrow> ret text
      | Inl e \<Rightarrow> bind (logger ERROR (''Erreur lecture CSV: '' @ str_of e)) (\<lambda>_. raise e))"

definition extract_text :: "env \<Rightarrow> file_info \<Rightarrow> string comp" where
  "extract_text E fi =
     (case get_file_content E (name fi) of
        None \<Rightarrow> raise (ValueError (''Impossible de lire le fichier: '' @ name fi))
      | Some content \<Rightarrow>
          if extension fi = ''.html'' then extract_from_html E content
          else if extension fi = ''.csv'' then extract_from_csv E (path fi)
          else ret content)"

text \<open>\<open>_split_text\<close>: one document per chunk of the splitter, numbered from 0.\<close>

definition split_text :: "env \<Rightarrow> string \<Rightarrow> string \<Rightarrow> document list" where
  "split_text E text source_name =
     (let chunks = splitter_split_text E text
      in map (\<lambda>(i, chunk).
                \<lparr>page_content = chunk,
                 metadata = [(''source'', S source_name),
                             (''chunk_index'', I (int i)),
                             (''total_chunks'', I (int (length chunks)))]\<rparr>)
           (zip [0 ..< length chunks] chunks))"

text \<open>The cleaner the processor is built with.\<close>

definition cleaner :: text_cleaner where
  "cleaner = \<lparr>remove_urls = True, remove_emails = True, normalize_whitespace = True,
     remove_special_chars = False, min_line_length = 3\<rparr>"

definition failure :: "file_info \<Rightarrow> string \<Rightarrow> processing_result" where
  "failure fi msg = \<lparr>success = False, source_id = name fi, chunks_count = 0, message = msg\<rparr>"

definition TOO_SHORT :: string where
  "TOO_SHORT = ''Le contenu nettoy'' @ e_acute @ '' est trop court pour '' @ [CHR 0xEA]
     @ ''tre exploitable''"

definition process_file :: "env \<Rightarrow> file_info \<Rightarrow> processing_result comp" where
  "process_file E fi =
     try_except
       (bind (logger INFO (''Traitement du fichier: '' @ name fi))
          (\<lambda>_. bind (extract_text E fi)
             (\<lambda>raw_text.
                if raw_text = [] \<or> strip raw_text = []
                then ret (failure fi
                       ''Le fichier est vide ou ne contient pas de texte exploitable'')
                else (let cleaned_text = clean cleaner (Some raw_text)
                      in if length cleaned_text < 50
                         then ret (failure fi TOO_SHORT)
                         else (let chunks = split_text E cleaned_text (name fi)
                               in if chunks = []
                                  then ret (failure fi (''Impossible de d'' @ e_acute
                                         @ ''couper le document en chunks''))
                                  else bind (add_documents E chunks (Some (name fi)))
                                         (\<lambda>_. bind (logger INFO (''Fichier trait'' @ e_acute
                                                 @ '' avec succ'' @ e_grave @ ''s: '' @ name fi
                                                 @ '' ('' @ str_nat (length chunks)
                                                 @ '' chunks)''))
                                            (\<lambda>_. ret \<lparr>success = True, source_id = name fi,
                                                    chunks_count = int (length chunks),
                                                    message = ''Document index'' @ e_acute
                                                      @ '' avec succ'' @ e_grave @ ''s (''
                                                      @ str_nat (length chunks)
                                                      @ '' segments)''\<rparr>)))))))
       (\<lambda>e. bind (logger ERROR (''Erreur traitement '' @ name fi @ '': '' @ str_of e))
               (\<lambda>_. ret (failure fi (''Erreur lors du traitement: '' @ str_of e))))"

section \<open>Conditions and sample inputs used by the theorems\<close>

text \<open>
  The store can be reached: it is loaded already, or the embeddings object exists, or
  an API key is configured so that both can be created.
\<close>

definition store_usable :: "env \<Rightarrow> world \<Rightarrow> bool" where
  "store_usable E w =
     (vectorstore_loaded w \<or> embeddings_loaded w \<or> openai_api_key (settings E) \<noteq> [])"

text \<open>A record carries the given source identifier.\<close>

definition from_source :: "string \<Rightarrow> nat \<times> document \<Rightarrow> bool" where
  "from_source src r = (map_of (metadata (snd r)) ''source_id'' = Some (S src))"

text \<open>A process that has just started, with nothing indexed.\<close>

definition fresh_world :: world where
  "fresh_world = \<lparr>logged = [], collection = [], next_id = 0, embeddings_loaded = False,
     vectorstore_loaded = False, client_loaded = False, invoke_calls = [], stream_calls = []\<rparr>"

definition bail :: document where
  "bail = \<lparr>page_content = ''Le bail commercial est conclu pour neuf ans.'',
           metadata = [(''source'', S ''bail.txt''), (''chunk_index'', I 0),
                       (''total_chunks'', I 1), (''source_id'', S ''bail.txt'')]\<rparr>"

definition statuts :: document where
  "statuts = \<lparr>page_content = ''Le capital social est fixe a dix mille euros.'',
              metadata = [(''source'', S ''statuts.txt''), (''chunk_index'', I 0),
                          (''total_chunks'', I 1), (''source_id'', S ''statuts.txt'')]\<rparr>"

text \<open>A world with one indexed segment, and one with two sources.\<close>

definition one_segment :: world where
  "one_segment = fresh_world\<lparr>collection := [(0, bail)], next_id := 1\<rparr>"

definition two_sources :: world where
  "two_sources = fresh_world\<lparr>collection := [(0, bail), (1, statuts), (2, bail)], next_id := 3\<rparr>"

definition short_text :: string where
  "short_text = ''Le bail est conclu pour neuf ans fermes.''"

definition long_text :: string where
  "long_text = ''Le bail commercial est conclu pour une duree de neuf ans. ''
     @ ''Le preneur peut donner conge tous les trois ans.''"

text \<open>
  Libraries that work: every stored segment is at the given distance from every query,
  the chat model answers, the splitter cuts after 60 characters.
\<close>

definition sample_env :: "rat \<Rightarrow> env" where
  "sample_env d =
     \<lparr>settings = \<lparr>openai_api_key = ''sk-test'', retriever_k = 4\<rparr>,
      embed_query = (\<lambda>_. Inr [0]),
      embed_documents = (\<lambda>texts. Inr (map (\<lambda>_. [0]) texts)),
      similarity_search = (\<lambda>c q k f. Inr (map snd (take (nat k) c))),
      similarity_search_with_score = (\<lambda>c q k. Inr (map (\<lambda>r. (snd r, d)) (take (nat k) c))),
      empty_batch_fault = ValueError ''Expected IDs to be a non-empty list'',
      collection_get_fault = None,
      collection_delete_fault = None,
      collection_count_fault = None,
      chat_invoke = (\<lambda>_. Inr ''Neuf ans.''),
      chat_stream = (\<lambda>_. ([''Neuf'', '''', '' ans.''], None)),
      splitter_split_text = (\<lambda>t. if t = [] then [] else [take 60 t, drop 60 t]),
      get_file_content = (\<lambda>n. if n = ''short.txt'' then Some short_text
                                else if n = ''bail.txt'' then Some long_text
                                else None),
      soup_get_text = (\<lambda>h. Inr h),
      read_csv_text = (\<lambda>p. Inr p)\<rparr>"

definition short_file :: file_info where
  "short_file = \<lparr>name = ''short.txt'', path = ''/data/documents/short.txt'',
     extension = ''.txt'', file_size = 40, file_hash = ''a1'', uploaded_at = 0\<rparr>"

definition missing_file :: file_info where
  "missing_file = \<lparr>name = ''absent.txt'', path = ''/data/documents/absent.txt'',
     extension = ''.txt'', file_size = 0, file_hash = ''c3'', uploaded_at = 0\<rparr>"

definition bail_file :: file_info where
  "bail_file = \<lparr>name = ''bail.txt'', path = ''/data/documents/bail.txt'',
     extension = ''.txt'', file_size = 105, file_hash = ''b2'', uploaded_at = 0\<rparr>"

text \<open>The documents as \<open>add_documents\<close> stores them: with the source identifier, if one is given.\<close>

definition stamped :: "string option \<Rightarrow> document list \<Rightarrow> document list" where
  "stamped src documents =
     (case src of
        None \<Rightarrow> documents
      | Some sid \<Rightarrow>
          if sid = [] then documents
          else map (\<lambda>doc. doc\<lparr>metadata := AList.update ''source_id'' (S sid) (metadata doc)\<rparr>)
                 documents)"

text \<open>
  Libraries that fail: no API key is configured; the chat model is down (the stream
  breaks after one chunk); the embedding endpoint is down.
\<close>

definition no_key_env :: env where
  "no_key_env = (sample_env (1 / 2))\<lparr>settings := \<lparr>openai_api_key = [], retriever_k = 4\<rparr>\<rparr>"

definition chat_down_env :: env where
  "chat_down_env = (sample_env (1 / 10))
     \<lparr>chat_invoke := (\<lambda>_. Inl (BackendError ''LLM API Error'')),
      chat_stream := (\<lambda>_. ([''Neuf''], Some (BackendError ''Stream Error'')))\<rparr>"

definition embedding_down_env :: env where
  "embedding_down_env = (sample_env (1 / 2))
     \<lparr>embed_query := (\<lambda>_. Inl (BackendError ''API Error'')),
      embed_documents := (\<lambda>_. Inl (BackendError ''Batch Error''))\<rparr>"

section \<open>Facts about the store and the chat client\<close>

lemma or_default_idem: "or_default (Some (or_default k d)) d = or_default k d"
  by (simp add: or_default_def split: option.splits)

lemma search_with_scores_default:
  "search_with_scores E q (Some (or_default k (retriever_k (settings E))))
     = search_with_scores E q k"
  by (simp add: search_with_scores_def or_default_idem)

lemma vectorstore_cases:
  "vectorstore E w =
     (if vectorstore_loaded w then (Inr (), w)
      else if embeddings_loaded w \<or> openai_api_key (settings E) \<noteq> []
      then (Inr (), w\<lparr>embeddings_loaded := True, vectorstore_loaded := True,
              logged := logged w @ [(DEBUG, ''Base vectorielle charg'' @ e_acute @ ''e/cr''
                                     @ e_acute @ e_acute @ ''e'')]\<rparr>)
      else (Inl (ValueError KEY_MISSING), w))"
  by (simp add: vectorstore_def embeddings_def bind_def logger_def)

lemma fst_search_with_scores:
  "fst (search_with_scores E q k w) =
     (if store_usable E w
      then similarity_search_with_score E (collection w) q
             (or_default k (retriever_k (settings E)))
      else Inl (ValueError KEY_MISSING))"
  by (simp add: search_with_scores_def try_except_def bind_def ret_def raise_def logger_def
      vectorstore_cases store_usable_def split: sum.splits prod.splits)

lemma search_with_scores_keeps:
  "invoke_calls (snd (search_with_scores E q k w)) = invoke_calls w"
  "stream_calls (snd (search_with_scores E q k w)) = stream_calls w"
  "client_loaded (snd (search_with_scores E q k w)) = client_loaded w"
  "collection (snd (search_with_scores E q k w)) = collection w"
  by (simp_all add: search_with_scores_def try_except_def bind_def ret_def raise_def logger_def
      vectorstore_cases split: sum.splits prod.splits)

lemma fst_search_with_scores_logged:
  "fst (search_with_scores E q k (w\<lparr>logged := l\<rparr>)) = fst (search_with_scores E q k w)"
  by (simp add: fst_search_with_scores store_usable_def)

lemma fst_invoke:
  "fst (invoke E p sp w) =
     (if client_loaded w \<or> openai_api_key (settings E) \<noteq> []
      then chat_invoke E (build_messages p sp)
      else Inl (ValueError KEY_MISSING))"
  by (simp add: invoke_def try_except_def bind_def ret_def raise_def logger_def client_def Let_def
      split: sum.splits prod.splits)



section \<open>RAGChain.query\<close>

text \<open>
  C1. When \<open>search_with_scores\<close> returns the empty list, \<open>query\<close> returns the fixed
  refusal message \<open>NO_CONTEXT_MESSAGE\<close> with no sources and \<open>has_context = False\<close>, and
  the chat model has not been invoked: the list of its calls is what it was.
\<close>

theorem query_no_context:
  assumes "fst (search_with_scores E question k w) = Inr []"
  shows "fst (query E question k w)
           = Inr \<lparr>answer = NO_CONTEXT_MESSAGE, sources = [], has_context = False\<rparr>
         \<and> invoke_calls (snd (query E question k w)) = invoke_calls w"
proof -
  let ?w1 = "w\<lparr>logged := logged w @ [(DEBUG, ''Recherche de contexte pour: '' @ quote
                 @ take 50 question @ ''...'' @ quote)]\<rparr>"
  let ?k = "or_default k (retriever_k (settings E))"
  obtain r w2 where s: "search_with_scores E question (Some ?k) ?w1 = (r, w2)"
    by (cases "search_with_scores E question (Some ?k) ?w1")
  have "r = fst (search_with_scores E question k ?w1)"
    using s by (simp add: search_with_scores_default)
  then have r: "r = Inr []"
    using assms by (simp add: fst_search_with_scores_logged)
  have "invoke_calls w2 = invoke_calls ?w1"
    using search_with_scores_keeps(1) [of E question "Some ?k" ?w1] s by simp
  then have c: "invoke_calls w2 = invoke_calls w" by simp
  show ?thesis
    using s r c
    by (simp add: query_def try_except_def bind_def logger_def ret_def relevant_docs_def Let_def)
qed

text \<open>The empty corpus: the system is not ready, and a question gets the refusal.\<close>

theorem query_no_context_witness:
  "fst (search_with_scores (sample_env (1 / 2)) ''anything'' None fresh_world) = Inr []
   \<and> fst (is_ready (sample_env (1 / 2)) fresh_world) = Inr False
   \<and> fst (query (sample_env (1 / 2)) ''anything'' None fresh_world)
       = Inr \<lparr>answer = NO_CONTEXT_MESSAGE, sources = [], has_context = False\<rparr>
   \<and> invoke_calls (snd (query (sample_env (1 / 2)) ''anything'' None fresh_world)) = []"
proof -
  have h: "fst (search_with_scores (sample_env (1 / 2)) ''anything'' None fresh_world) = Inr []"
    by (simp add: fst_search_with_scores store_usable_def sample_env_def fresh_world_def)
  have r: "fst (is_ready (sample_env (1 / 2)) fresh_world) = Inr False"
    by (simp add: is_ready_def get_document_count_def collection_count_def try_except_def
        bind_def ret_def vectorstore_cases sample_env_def fresh_world_def)
  show ?thesis
    using h r query_no_context [OF h] by (simp add: fresh_world_def)
qed



section \<open>LLMClient.stream\<close>


lemma stream_yielded:
  "fst (fst (stream E p sp w)) =
     (if client_loaded w \<or> openai_api_key (settings E) \<noteq> []
      then filter (\<lambda>content. content \<noteq> []) (fst (chat_stream E (build_messages p sp)))
      else [])"
  by (simp add: stream_def bind_def logger_def client_def Let_def split: option.splits)

text \<open>
  C10. No fragment yielded by \<open>stream\<close> is the empty string: what it yields is
  the backend's chunks without those of empty content, so there can be fewer fragments
  than chunks.
\<close>

theorem stream_fragments_nonempty:
  "[] \<notin> set (fst (fst (stream E prompt system_prompt w)))
   \<and> length (fst (fst (stream E prompt system_prompt w)))
       \<le> length (fst (chat_stream E (build_messages prompt system_prompt)))
   \<and> (client_loaded w \<or> openai_api_key (settings E) \<noteq> [] \<longrightarrow>
        fst (fst (stream E prompt system_prompt w))
          = filter (\<lambda>content. content \<noteq> [])
              (fst (chat_stream E (build_messages prompt system_prompt))))"
  by (simp add: stream_yielded)

text \<open>
  Three chunks, the second one empty: two fragments reach the caller.
\<close>

theorem stream_fragments_nonempty_witness:
  "(client_loaded fresh_world \<or> openai_api_key (settings (sample_env (1 / 2))) \<noteq> [])
   \<and> fst (chat_stream (sample_env (1 / 2)) (build_messages ''Question'' None))
       = [''Neuf'', '''', '' ans.'']
   \<and> fst (fst (stream (sample_env (1 / 2)) ''Question'' None fresh_world))
       = [''Neuf'', '' ans.'']
   \<and> length (fst (fst (stream (sample_env (1 / 2)) ''Question'' None fresh_world)))
       < length (fst (chat_stream (sample_env (1 / 2)) (build_messages ''Question'' None)))"
proof -
  have c: "client_loaded fresh_world \<or> openai_api_key (settings (sample_env (1 / 2))) \<noteq> []"
    by (simp add: sample_env_def)
  have s: "fst (chat_stream (sample_env (1 / 2)) (build_messages ''Question'' None))
             = [''Neuf'', '''', '' ans.'']"
    by (simp add: sample_env_def)
  show ?thesis
    using c s stream_fragments_nonempty [of "sample_env (1 / 2)" "''Question''" None fresh_world]
    by simp
qed


section \<open>VectorStoreManager: clear and delete_by_source\<close>


lemma clear_usable:
  assumes "store_usable E w" "collection_get_fault E = None" "collection_delete_fault E = None"
  shows "fst (clear E w) = Inr True"
    and "collection (snd (clear E w)) = []"
    and "vectorstore_loaded (snd (clear E w))"
  using assms
  by (auto simp: clear_def try_except_def bind_def ret_def logger_def vectorstore_cases
      collection_get_def collection_delete_def selected_def store_usable_def filter_empty_conv)

lemma get_document_count_value:
  "fst (get_document_count E w) =
     Inr (if store_usable E w \<and> collection_count_fault E = None
          then int (length (collection w)) else 0)"
  by (simp add: get_document_count_def try_except_def bind_def ret_def logger_def
      vectorstore_cases collection_count_def store_usable_def split: option.splits)

lemma get_document_count_keeps:
  "collection (snd (get_document_count E w)) = collection w"
  "store_usable E (snd (get_document_count E w)) = store_usable E w"
  by (auto simp: get_document_count_def try_except_def bind_def ret_def logger_def
      vectorstore_cases collection_count_def store_usable_def split: option.splits)

text \<open>
  C7. With a store that can be reached and a collection whose \<open>get\<close> and \<open>delete\<close>
  work, two calls of \<open>clear\<close> in a row both return \<open>True\<close>, and
  \<open>get_document_count\<close> is 0 after each of them, whatever the collection held before
  the first call (nothing included).
\<close>

theorem clear_twice:
  assumes "store_usable E w"
    and "collection_get_fault E = None"
    and "collection_delete_fault E = None"
    and "w1 = snd (clear E w)"
    and "w2 = snd (get_document_count E w1)"
    and "w3 = snd (clear E w2)"
  shows "fst (clear E w) = Inr True
         \<and> fst (get_document_count E w1) = Inr 0
         \<and> fst (clear E w2) = Inr True
         \<and> fst (get_document_count E w3) = Inr 0"
proof -
  have u1: "store_usable E w1"
    using clear_usable(3) [OF assms(1-3)] assms(4) by (simp add: store_usable_def)
  have c1: "collection w1 = []"
    using clear_usable(2) [OF assms(1-3)] assms(4) by simp
  have u2: "store_usable E w2"
    using u1 assms(5) by (simp add: get_document_count_keeps)
  have c3: "collection w3 = []"
    using clear_usable(2) [OF u2 assms(2,3)] assms(6) by simp
  show ?thesis
    using clear_usable(1) [OF assms(1-3)] clear_usable(1) [OF u2 assms(2,3)] c1 c3
    by (simp add: get_document_count_value)
qed

text \<open>
  Three records at first: the first call empties the collection, the second one finds it
  empty.
\<close>

theorem clear_twice_witness:
  "store_usable (sample_env (1 / 2)) two_sources
   \<and> collection_get_fault (sample_env (1 / 2)) = None
   \<and> collection_delete_fault (sample_env (1 / 2)) = None
   \<and> fst (get_document_count (sample_env (1 / 2)) two_sources) = Inr 3
   \<and> fst (clear (sample_env (1 / 2)) two_sources) = Inr True
   \<and> fst (get_document_count (sample_env (1 / 2)) (snd (clear (sample_env (1 / 2)) two_sources)))
       = Inr 0
   \<and> fst (clear (sample_env (1 / 2))
        (snd (get_document_count (sample_env (1 / 2))
           (snd (clear (sample_env (1 / 2)) two_sources))))) = Inr True
   \<and> fst (get_document_count (sample_env (1 / 2))
        (snd (clear (sample_env (1 / 2))
           (snd (get_document_count (sample_env (1 / 2))
              (snd (clear (sample_env (1 / 2)) two_sources))))))) = Inr 0"
proof -
  have u: "store_usable (sample_env (1 / 2)) two_sources"
    by (simp add: store_usable_def sample_env_def)
  have g: "collection_get_fault (sample_env (1 / 2)) = None"
    by (simp add: sample_env_def)
  have d: "collection_delete_fault (sample_env (1 / 2)) = None"
    by (simp add: sample_env_def)
  have n: "fst (get_document_count (sample_env (1 / 2)) two_sources) = Inr 3"
    using u by (simp add: get_document_count_value)
      (simp add: sample_env_def two_sources_def fresh_world_def)
  show ?thesis
    using u g d n clear_twice [OF u g d refl refl refl] by simp
qed

lemma selected_source: "(\<lambda>r. selected (Some (''source_id'', S src)) (snd r)) = from_source src"
  by (auto simp: selected_def from_source_def)

lemma vectorstore_usable:
  assumes "store_usable E w"
  shows "fst (vectorstore E w) = Inr ()"
    and "collection (snd (vectorstore E w)) = collection w"
  using assms by (auto simp: vectorstore_cases store_usable_def)

lemma delete_by_source_usable:
  assumes "store_usable E w" "collection_get_fault E = None" "collection_delete_fault E = None"
  shows "fst (delete_by_source E src w) = Inr (filter (from_source src) (collection w) \<noteq> [])"
    and "collection (snd (delete_by_source E src w))
           = filter (\<lambda>r. fst r \<notin> set (map fst (filter (from_source src) (collection w))))
               (collection w)"
proof -
  let ?w1 = "w\<lparr>logged := logged w
                @ [(INFO, ''Suppression des documents de la source: '' @ src)]\<rparr>"
  obtain r w2 where v: "vectorstore E ?w1 = (r, w2)"
    by (cases "vectorstore E ?w1")
  have u: "store_usable E ?w1" using assms(1) by (simp add: store_usable_def)
  have r: "r = Inr ()" and c: "collection w2 = collection w"
    using vectorstore_usable [OF u] v by simp_all
  show "fst (delete_by_source E src w) = Inr (filter (from_source src) (collection w) \<noteq> [])"
    using v r c assms(2,3)
    by (simp add: delete_by_source_def try_except_def bind_def ret_def logger_def
        collection_get_def collection_delete_def selected_source)
  show "collection (snd (delete_by_source E src w))
           = filter (\<lambda>r. fst r \<notin> set (map fst (filter (from_source src) (collection w))))
               (collection w)"
  proof (cases "filter (from_source src) (collection w) = []")
    case True
    show ?thesis
      using v r c assms(2,3)
      by (simp add: True delete_by_source_def try_except_def bind_def ret_def logger_def
          collection_get_def collection_delete_def selected_source)
  next
    case False
    show ?thesis
      using v r c assms(2,3) False
      by (simp add: delete_by_source_def try_except_def bind_def ret_def logger_def
          collection_get_def collection_delete_def selected_source)
  qed
qed

text \<open>
  C8. With a store that can be reached and a collection whose \<open>get\<close> and \<open>delete\<close>
  work: when no record carries the source identifier (so on an empty collection),
  \<open>delete_by_source\<close> returns \<open>False\<close>, raises nothing and leaves the collection as it
  is; when some record carries it, \<open>delete_by_source\<close> returns \<open>True\<close> and no record of
  that source is left. Identifiers being unique, exactly the records of that source are
  removed.
\<close>

theorem delete_by_source_result:
  assumes "store_usable E w"
    and "collection_get_fault E = None"
    and "collection_delete_fault E = None"
  shows "((\<forall>r \<in> set (collection w). \<not> from_source src r) \<longrightarrow>
            fst (delete_by_source E src w) = Inr False
            \<and> collection (snd (delete_by_source E src w)) = collection w)
         \<and> ((\<exists>r \<in> set (collection w). from_source src r) \<longrightarrow>
              fst (delete_by_source E src w) = Inr True
              \<and> (\<forall>r \<in> set (collection (snd (delete_by_source E src w))). \<not> from_source src r)
              \<and> (distinct (map fst (collection w)) \<longrightarrow>
                   collection (snd (delete_by_source E src w))
                     = filter (\<lambda>r. \<not> from_source src r) (collection w)))"
proof -
  let ?ids = "set (map fst (filter (from_source src) (collection w)))"
  have gone: "\<forall>r \<in> set (filter (\<lambda>r. fst r \<notin> ?ids) (collection w)). \<not> from_source src r"
    by force
  have none: "(\<forall>r \<in> set (collection w). \<not> from_source src r) \<Longrightarrow>
                filter (\<lambda>r. fst r \<notin> ?ids) (collection w) = collection w"
    by (simp add: filter_empty_conv [THEN iffD2])
  have exact: "filter (\<lambda>r. fst r \<notin> ?ids) (collection w)
                 = filter (\<lambda>r. \<not> from_source src r) (collection w)"
    if d: "distinct (map fst (collection w))"
  proof (rule filter_cong [OF refl])
    fix r assume r: "r \<in> set (collection w)"
    have "fst r \<in> ?ids \<longleftrightarrow> from_source src r"
    proof
      assume "fst r \<in> ?ids"
      then obtain r' where r': "r' \<in> set (collection w)" "from_source src r'" "fst r' = fst r"
        by auto
      then have "r' = r"
        using d r by (metis eq_key_imp_eq_value prod.collapse)
      then show "from_source src r" using r' by simp
    next
      assume "from_source src r"
      then show "fst r \<in> ?ids" using r by force
    qed
    then show "(fst r \<notin> ?ids) = (\<not> from_source src r)" by simp
  qed
  have r: "fst (delete_by_source E src w) = Inr (\<exists>r \<in> set (collection w). from_source src r)"
    using delete_by_source_usable(1) [OF assms, of src] by (simp add: filter_empty_conv)
  have c: "collection (snd (delete_by_source E src w))
             = filter (\<lambda>r. fst r \<notin> ?ids) (collection w)"
    using delete_by_source_usable(2) [OF assms, of src] .
  show ?thesis
    unfolding r c using gone none exact by blast
qed

text \<open>
  A missing source on the empty collection, and a source with two of three records.
\<close>

theorem delete_by_source_result_witness:
  "store_usable (sample_env (1 / 2)) fresh_world
   \<and> store_usable (sample_env (1 / 2)) two_sources
   \<and> collection_get_fault (sample_env (1 / 2)) = None
   \<and> collection_delete_fault (sample_env (1 / 2)) = None
   \<and> filter (from_source ''missing.txt'') (collection fresh_world) = []
   \<and> filter (from_source ''bail.txt'') (collection two_sources) = [(0, bail), (2, bail)]
   \<and> distinct (map fst (collection two_sources))
   \<and> fst (delete_by_source (sample_env (1 / 2)) ''missing.txt'' fresh_world) = Inr False
   \<and> collection (snd (delete_by_source (sample_env (1 / 2)) ''missing.txt'' fresh_world)) = []
   \<and> fst (delete_by_source (sample_env (1 / 2)) ''bail.txt'' two_sources) = Inr True
   \<and> collection (snd (delete_by_source (sample_env (1 / 2)) ''bail.txt'' two_sources))
       = [(1, statuts)]"
proof -
  have u0: "store_usable (sample_env (1 / 2)) fresh_world"
    and u2: "store_usable (sample_env (1 / 2)) two_sources"
    by (simp_all add: store_usable_def sample_env_def)
  have g: "collection_get_fault (sample_env (1 / 2)) = None"
    and d: "collection_delete_fault (sample_env (1 / 2)) = None"
    by (simp_all add: sample_env_def)
  have none: "\<forall>r \<in> set (collection fresh_world). \<not> from_source ''missing.txt'' r"
    by (simp add: fresh_world_def)
  have some: "\<exists>r \<in> set (collection two_sources). from_source ''bail.txt'' r"
    by (simp add: two_sources_def fresh_world_def from_source_def bail_def)
  have dist: "distinct (map fst (collection two_sources))"
    by (simp add: two_sources_def fresh_world_def)
  have rest: "filter (\<lambda>r. \<not> from_source ''bail.txt'' r) (collection two_sources) = [(1, statuts)]"
    by (simp add: two_sources_def fresh_world_def from_source_def bail_def statuts_def)
  have e: "collection fresh_world = []" by (simp add: fresh_world_def)
  have a: "fst (delete_by_source (sample_env (1 / 2)) ''missing.txt'' fresh_world) = Inr False
           \<and> collection (snd (delete_by_source (sample_env (1 / 2)) ''missing.txt'' fresh_world))
               = collection fresh_world"
    using delete_by_source_result [OF u0 g d, of "''missing.txt''"] none by blast
  have b: "fst (delete_by_source (sample_env (1 / 2)) ''bail.txt'' two_sources) = Inr True
           \<and> collection (snd (delete_by_source (sample_env (1 / 2)) ''bail.txt'' two_sources))
               = filter (\<lambda>r. \<not> from_source ''bail.txt'' r) (collection two_sources)"
    using delete_by_source_result [OF u2 g d, of "''bail.txt''"] some dist by blast
  have fn: "filter (from_source ''missing.txt'') (collection fresh_world) = []"
    by (simp add: fresh_world_def)
  have fs: "filter (from_source ''bail.txt'') (collection two_sources) = [(0, bail), (2, bail)]"
    by (simp add: two_sources_def fresh_world_def from_source_def bail_def statuts_def)
  show ?thesis
    using u0 u2 g d fn fs dist a b unfolding rest e by blast
qed


section \<open>TextCleaner: whitespace\<close>


lemma spaces_no_other_whitespace:
  "c \<in> set (re_sub MULTIPLE_SPACES '' '' n s) \<Longrightarrow> isspace c \<Longrightarrow> c = CHR '' ''"
proof (induction MULTIPLE_SPACES "'' ''" n s rule: re_sub.induct)
  case (1 skip)
  then show ?case by simp
next
  case (2 n c cs)
  then show ?case by simp
next
  case (3 x xs)
  show ?case
  proof (cases "isspace x")
    case True
    then obtain m where m: "MULTIPLE_SPACES (x # xs) = Some (Suc m)"
      by (simp add: MULTIPLE_SPACES_def)
    then show ?thesis using 3 by auto
  next
    case False
    then have "MULTIPLE_SPACES (x # xs) = None"
      by (simp add: MULTIPLE_SPACES_def)
    then show ?thesis using 3 False by auto
  qed
qed

lemma newlines_nothing_to_do:
  "CHR ''\<newline>'' \<notin> set s \<Longrightarrow> re_sub MULTIPLE_NEWLINES r 0 s = s"
proof (induction s)
  case Nil
  then show ?case by simp
next
  case (Cons x xs)
  from Cons.prems have "x \<noteq> CHR ''\<newline>''" by auto
  then have "MULTIPLE_NEWLINES (x # xs) = None"
    by (simp add: MULTIPLE_NEWLINES_def)
  then show ?case using Cons by simp
qed

lemma no_newline_after_spaces: "CHR ''\<newline>'' \<notin> set (re_sub MULTIPLE_SPACES '' '' 0 s)"
proof
  assume "CHR ''\<newline>'' \<in> set (re_sub MULTIPLE_SPACES '' '' 0 s)"
  moreover have "isspace CHR ''\<newline>''" by (simp add: isspace_def ord_def)
  ultimately have "CHR ''\<newline>'' = CHR '' ''" by (rule spaces_no_other_whitespace)
  then show False by simp
qed

text \<open>
  C4. The claim does not hold of the code: the whitespace pattern matches newlines too,
  and is substituted first, so every run of whitespace, newlines included, becomes one
  space; the newline pattern then finds nothing. Five newlines between two paragraphs
  give one space and not two newlines, two newlines are not preserved either, and the
  result of \<open>_normalize_whitespace\<close> never contains a newline.
\<close>

theorem normalize_whitespace_loses_newlines:
  "clean TextCleaner (Some ''Paragraphe 1\<newline>\<newline>\<newline>\<newline>\<newline>Paragraphe 2'')
     = ''Paragraphe 1 Paragraphe 2''
   \<and> clean TextCleaner (Some ''Article 1\<newline>\<newline>Article 2'') = ''Article 1 Article 2''
   \<and> normalize_whitespace_text s = re_sub MULTIPLE_SPACES '' '' 0 s
   \<and> CHR ''\<newline>'' \<notin> set (normalize_whitespace_text s)"
proof -
  have a: "clean TextCleaner (Some ''Paragraphe 1\<newline>\<newline>\<newline>\<newline>\<newline>Paragraphe 2'')
             = ''Paragraphe 1 Paragraphe 2''"
    by code_simp
  have b: "clean TextCleaner (Some ''Article 1\<newline>\<newline>Article 2'') = ''Article 1 Article 2''"
    by code_simp
  have c: "normalize_whitespace_text s = re_sub MULTIPLE_SPACES '' '' 0 s"
    by (simp add: normalize_whitespace_text_def newlines_nothing_to_do no_newline_after_spaces)
  show ?thesis
    using a b c no_newline_after_spaces [of s] by simp
qed


section \<open>DocumentProcessor\<close>


lemma extract_text_world:
  "fst (extract_text E fi w') = fst (extract_text E fi w)"
  "collection (snd (extract_text E fi w)) = collection w"
  by (auto simp: extract_text_def extract_from_html_def extract_from_csv_def raise_def ret_def
      bind_def logger_def split: option.splits sum.splits)

text \<open>
  C6, as amended. When the extracted text is not blank and its cleaned form is shorter
  than 50 characters (a text of 40 characters without e-mail addresses, for one),
  \<open>process_file\<close> returns a failure whose message is the French sentence below (it says
  \<open>trop court\<close>), and the collection is what it was.
\<close>

theorem too_short_after_cleaning:
  assumes "fst (extract_text E fi w) = Inr raw_text"
    and "strip raw_text \<noteq> []"
    and "length (clean cleaner (Some raw_text)) < 50"
  shows "fst (process_file E fi w)
           = Inr \<lparr>success = False, source_id = name fi, chunks_count = 0,
                  message = ''Le contenu nettoy'' @ [CHR 0xE9] @ '' est trop court pour ''
                            @ [CHR 0xEA] @ ''tre exploitable''\<rparr>
         \<and> collection (snd (process_file E fi w)) = collection w"
proof -
  let ?w1 = "w\<lparr>logged := logged w @ [(INFO, ''Traitement du fichier: '' @ name fi)]\<rparr>"
  obtain x w2 where e: "extract_text E fi ?w1 = (x, w2)"
    by (cases "extract_text E fi ?w1")
  have x: "x = Inr raw_text"
    using extract_text_world(1) [of E fi ?w1 w] e assms(1) by simp
  have c: "collection w2 = collection w"
    using extract_text_world(2) [of E fi ?w1] e by simp
  have n: "raw_text \<noteq> []"
    using assms(2) by (auto simp: strip_def lstrip_def rstrip_def)
  show ?thesis
    using e x c n assms(2,3)
    by (simp add: process_file_def try_except_def bind_def ret_def logger_def failure_def
        TOO_SHORT_def e_acute_def)
qed

text \<open>
  A plain text file of 40 characters.
\<close>

theorem too_short_after_cleaning_witness:
  "length short_text = 40
   \<and> fst (extract_text (sample_env (1 / 2)) short_file fresh_world) = Inr short_text
   \<and> strip short_text \<noteq> []
   \<and> length (clean cleaner (Some short_text)) < 50
   \<and> fst (process_file (sample_env (1 / 2)) short_file fresh_world)
       = Inr \<lparr>success = False, source_id = ''short.txt'', chunks_count = 0,
              message = ''Le contenu nettoy'' @ [CHR 0xE9] @ '' est trop court pour ''
                        @ [CHR 0xEA] @ ''tre exploitable''\<rparr>
   \<and> collection (snd (process_file (sample_env (1 / 2)) short_file fresh_world)) = []"
proof -
  have l: "length short_text = 40" by (simp add: short_text_def)
  have x: "fst (extract_text (sample_env (1 / 2)) short_file fresh_world) = Inr short_text"
    by (simp add: extract_text_def sample_env_def short_file_def ret_def)
  have s: "strip short_text \<noteq> []" by code_simp
  have c: "length (clean cleaner (Some short_text)) < 50" by code_simp
  have n: "name short_file = ''short.txt''" by (simp add: short_file_def)
  have e: "collection fresh_world = []" by (simp add: fresh_world_def)
  show ?thesis
    using l x s c too_short_after_cleaning [OF x s c] n e by simp
qed

text \<open>
  C6, as stated, fails: for the 40-character file the message does not contain
  \<open>short\<close>.
\<close>

theorem too_short_counterexample:
  "length short_text = 40
   \<and> fst (process_file (sample_env (1 / 2)) short_file fresh_world)
       = Inr \<lparr>success = False, source_id = ''short.txt'', chunks_count = 0, message = TOO_SHORT\<rparr>
   \<and> contains TOO_SHORT ''short'' = False
   \<and> contains TOO_SHORT ''trop court'' = True"
  by code_simp

lemma vectorstore_keeps:
  "collection (snd (vectorstore E w)) = collection w"
  "next_id (snd (vectorstore E w)) = next_id w"
  by (simp_all add: vectorstore_cases)

lemma add_documents_returned:
  assumes "fst (add_documents E docs src w) = Inr ids"
  shows "collection (snd (add_documents E docs src w))
           = collection w @ zip ids (stamped src docs)"
    and "length ids = length docs"
proof -
  let ?d = "stamped src docs"
  let ?w1 = "w\<lparr>logged := logged w @ [(INFO, ''Ajout de '' @ str_nat (length ?d)
                @ '' documents '' @ a_grave @ '' la base'')]\<rparr>"
  obtain r w2 where v: "vectorstore E ?w1 = (r, w2)"
    by (cases "vectorstore E ?w1")
  have k: "collection w2 = collection w" "next_id w2 = next_id w"
    using vectorstore_keeps [of E ?w1] v by simp_all
  have body: "add_documents E docs src w =
     try_except
       (bind (logger INFO (''Ajout de '' @ str_nat (length ?d) @ '' documents ''
                              @ a_grave @ '' la base''))
             (\<lambda>_. bind (vectorstore E)
                (\<lambda>_. bind (chroma_add_documents E ?d)
                   (\<lambda>ids. bind (logger INFO (str_nat (length ids) @ '' documents ajout''
                                   @ e_acute @ ''s avec succ'' @ e_grave @ ''s''))
                      (\<lambda>_. ret ids)))))
       (\<lambda>e. bind (logger ERROR (''Erreur lors de l'ajout des documents: '' @ str_of e))
               (\<lambda>_. raise e)) w"
    by (simp add: add_documents_def stamped_def Let_def)
  have len: "length ?d = length docs"
    by (simp add: stamped_def split: option.splits)
  show "collection (snd (add_documents E docs src w)) = collection w @ zip ids ?d"
    using assms v k unfolding body
    by (cases r; cases "embed_documents E (map page_content ?d)")
      (auto simp: try_except_def bind_def ret_def raise_def logger_def chroma_add_documents_def
        Let_def split: if_splits)
  show "length ids = length docs"
    using assms v k len unfolding body
    by (cases r; cases "embed_documents E (map page_content ?d)")
      (auto simp: try_except_def bind_def ret_def raise_def logger_def chroma_add_documents_def
        Let_def split: if_splits)
qed

lemma split_text_indexed:
  "length (split_text E text src) = length (splitter_split_text E text)"
  "i < length (splitter_split_text E text) \<Longrightarrow>
     metadata (split_text E text src ! i)
       = [(''source'', S src), (''chunk_index'', I (int i)),
          (''total_chunks'', I (int (length (splitter_split_text E text))))]"
  by (simp_all add: split_text_def Let_def)

lemma stamped_lookup:
  assumes "key \<noteq> ''source_id''" and "i < length docs"
  shows "map_of (metadata (stamped src docs ! i)) key = map_of (metadata (docs ! i)) key"
  using assms by (simp add: stamped_def update_conv' split: option.splits)

lemma length_stamped: "length (stamped src docs) = length docs"
  by (simp add: stamped_def split: option.splits)

lemma stamped_Nil: "(stamped src docs = []) = (docs = [])"
  using length_stamped [of src docs] by (metis length_0_conv)

text \<open>
  C5. When \<open>process_file\<close> succeeds, the segments it has appended to the collection
  are not empty, their number is the reported \<open>chunks_count\<close>, their \<open>chunk_index\<close>
  values are 0, 1, ... in order up to that number, and each of them carries that number
  as \<open>total_chunks\<close>. The records that were there before are untouched.
\<close>

theorem chunk_indices_of_processed_file:
  assumes ok: "fst (process_file E fi w) = Inr r"
    and succ: "success r"
    and seg: "segments = map snd (drop (length (collection w))
                                   (collection (snd (process_file E fi w))))"
  shows "segments \<noteq> []
         \<and> chunks_count r = int (length segments)
         \<and> take (length (collection w)) (collection (snd (process_file E fi w))) = collection w
         \<and> map (\<lambda>d. map_of (metadata d) ''chunk_index'') segments
             = map (\<lambda>i. Some (I (int i))) [0 ..< length segments]
         \<and> (\<forall>d \<in> set segments.
               map_of (metadata d) ''total_chunks'' = Some (I (int (length segments))))"
proof -
  let ?w1 = "w\<lparr>logged := logged w @ [(INFO, ''Traitement du fichier: '' @ name fi)]\<rparr>"
  obtain x w2 where e: "extract_text E fi ?w1 = (x, w2)"
    by (cases "extract_text E fi ?w1")
  have c2: "collection w2 = collection w"
    using extract_text_world(2) [of E fi ?w1] e by simp
  from ok succ e obtain raw where x: "x = Inr raw"
    by (cases x)
      (auto simp: process_file_def try_except_def bind_def ret_def logger_def failure_def)
  let ?cleaned = "clean cleaner (Some raw)"
  let ?chunks = "split_text E ?cleaned (name fi)"
  have gates: "\<not> (raw = [] \<or> strip raw = [])" "\<not> length ?cleaned < 50" "?chunks \<noteq> []"
    using ok succ e x
    by (auto simp: process_file_def try_except_def bind_def ret_def logger_def failure_def Let_def
        split: if_splits)
  obtain y w3 where a: "add_documents E ?chunks (Some (name fi)) w2 = (y, w3)"
    by (cases "add_documents E ?chunks (Some (name fi)) w2")
  have pf: "process_file E fi w =
     (case y of
        Inl err \<Rightarrow> (Inr (failure fi (''Erreur lors du traitement: '' @ str_of err)),
                    w3\<lparr>logged := logged w3 @ [(ERROR, ''Erreur traitement '' @ name fi @ '': ''
                                                 @ str_of err)]\<rparr>)
      | Inr ids \<Rightarrow> (Inr \<lparr>success = True, source_id = name fi,
                         chunks_count = int (length ?chunks),
                         message = ''Document index'' @ e_acute @ '' avec succ'' @ e_grave
                           @ ''s ('' @ str_nat (length ?chunks) @ '' segments)''\<rparr>,
                    w3\<lparr>logged := logged w3 @ [(INFO, ''Fichier trait'' @ e_acute
                           @ '' avec succ'' @ e_grave @ ''s: '' @ name fi @ '' (''
                           @ str_nat (length ?chunks) @ '' chunks)'')]\<rparr>))"
    using e x gates a
    by (simp add: process_file_def try_except_def bind_def ret_def logger_def Let_def
        split: sum.splits)
  from ok succ obtain ids where y: "y = Inr ids"
    unfolding pf by (cases y) (auto simp: failure_def)
  have r: "chunks_count r = int (length ?chunks)"
    using ok unfolding pf y by auto
  have col: "collection w3 = collection w @ zip ids (stamped (Some (name fi)) ?chunks)"
    and len: "length ids = length ?chunks"
    using add_documents_returned [of E ?chunks "Some (name fi)" w2 ids] a y c2 by simp_all
  have w': "collection (snd (process_file E fi w))
              = collection w @ zip ids (stamped (Some (name fi)) ?chunks)"
    unfolding pf y using col by simp
  have s: "segments = stamped (Some (name fi)) ?chunks"
    unfolding seg w' using len by (simp add: length_stamped)
  let ?n = "length (splitter_split_text E ?cleaned)"
  have n: "length segments = ?n"
    unfolding s by (simp add: length_stamped split_text_indexed(1))
  have idx: "map_of (metadata (segments ! i)) ''chunk_index'' = Some (I (int i))"
    and tot: "map_of (metadata (segments ! i)) ''total_chunks'' = Some (I (int ?n))"
    if "i < ?n" for i
    using that unfolding s
    by (simp_all add: stamped_lookup split_text_indexed)
  have m: "map (\<lambda>d. map_of (metadata d) ''chunk_index'') segments
             = map (\<lambda>i. Some (I (int i))) [0 ..< length segments]"
    by (rule nth_equalityI) (simp_all add: n idx)
  have t: "\<forall>d \<in> set segments. map_of (metadata d) ''total_chunks'' = Some (I (int (length segments)))"
    using tot n by (auto simp: in_set_conv_nth)
  have ne: "segments \<noteq> []"
    using gates(3) length_stamped [of "Some (name fi)" ?chunks] s by (metis length_0_conv)
  show ?thesis
    using ne r n m t w' s by (simp add: length_stamped split_text_indexed(1))
qed

text \<open>
  A file of 105 characters, cut in two segments.
\<close>

theorem chunk_indices_of_processed_file_witness:
  "fst (process_file (sample_env (1 / 2)) bail_file fresh_world)
     = Inr \<lparr>success = True, source_id = ''bail.txt'', chunks_count = 2,
            message = ''Document index'' @ [CHR 0xE9] @ '' avec succ'' @ [CHR 0xE8]
                      @ ''s (2 segments)''\<rparr>
   \<and> success \<lparr>success = True, source_id = ''bail.txt'', chunks_count = 2,
               message = ''Document index'' @ [CHR 0xE9] @ '' avec succ'' @ [CHR 0xE8]
                         @ ''s (2 segments)''\<rparr>
   \<and> map (\<lambda>d. map_of (metadata d) ''chunk_index'')
        (map snd (collection (snd (process_file (sample_env (1 / 2)) bail_file fresh_world))))
       = [Some (I 0), Some (I 1)]
   \<and> map (\<lambda>d. map_of (metadata d) ''total_chunks'')
        (map snd (collection (snd (process_file (sample_env (1 / 2)) bail_file fresh_world))))
       = [Some (I 2), Some (I 2)]"
proof -
  let ?r = "\<lparr>success = True, source_id = ''bail.txt'', chunks_count = 2,
             message = ''Document index'' @ [CHR 0xE9] @ '' avec succ'' @ [CHR 0xE8]
                       @ ''s (2 segments)''\<rparr>"
  let ?segments = "map snd (drop (length (collection fresh_world))
                     (collection (snd (process_file (sample_env (1 / 2)) bail_file fresh_world))))"
  have ok: "fst (process_file (sample_env (1 / 2)) bail_file fresh_world) = Inr ?r"
    by code_simp
  have succ: "success ?r" by simp
  have e: "length (collection fresh_world) = 0" by (simp add: fresh_world_def)
  note t = chunk_indices_of_processed_file [OF ok succ refl]
  from t have n: "length ?segments = 2" by simp
  from t have i: "map (\<lambda>d. map_of (metadata d) ''chunk_index'') ?segments
                    = map (\<lambda>i. Some (I (int i))) [0 ..< length ?segments]"
    by blast
  from t have a: "\<forall>d \<in> set ?segments.
                    map_of (metadata d) ''total_chunks'' = Some (I (int (length ?segments)))"
    by blast
  have u: "[0 ..< 2] = [0, Suc 0]" by (simp add: upt_rec)
  have i': "map (\<lambda>d. map_of (metadata d) ''chunk_index'') ?segments = [Some (I 0), Some (I 1)]"
    unfolding i n u by simp
  have a': "map (\<lambda>d. map_of (metadata d) ''total_chunks'') ?segments = [Some (I 2), Some (I 2)]"
  proof (rule nth_equalityI)
    show "length (map (\<lambda>d. map_of (metadata d) ''total_chunks'') ?segments)
            = length [Some (I 2), Some (I 2)]"
      using n by simp
  next
    fix j assume "j < length (map (\<lambda>d. map_of (metadata d) ''total_chunks'') ?segments)"
    then have j: "j < 2" using n by simp
    then have "?segments ! j \<in> set ?segments" using n by (metis nth_mem)
    then have "map_of (metadata (?segments ! j)) ''total_chunks''
                 = Some (I (int (length ?segments)))"
      using a by blast
    then have "map_of (metadata (?segments ! j)) ''total_chunks'' = Some (I 2)"
      unfolding n by simp
    then show "map (\<lambda>d. map_of (metadata d) ''total_chunks'') ?segments ! j
                 = [Some (I 2), Some (I 2)] ! j"
      using j n by (cases j) (simp_all add: less_Suc_eq)
  qed
  show ?thesis
    using ok succ i' a' unfolding e by simp
qed

section \<open>Errors of the embedding client, the chat client and the store\<close>


lemma query_unfold:
  "query E q k w =
     (case search_with_scores E q k
             (w\<lparr>logged := logged w @ [(DEBUG, ''Recherche de contexte pour: '' @ quote
                   @ take 50 q @ ''...'' @ quote)]\<rparr>) of
        (Inl e, w2) \<Rightarrow>
          (Inl e, w2\<lparr>logged := logged w2
                      @ [(ERROR, ''Erreur lors du traitement de la question: '' @ str_of e)]\<rparr>)
      | (Inr rs, w2) \<Rightarrow>
          if relevant_docs rs (or_default k (retriever_k (settings E))) = []
          then (Inr \<lparr>answer = NO_CONTEXT_MESSAGE, sources = [], has_context = False\<rparr>,
                w2\<lparr>logged := logged w2
                      @ [(WARNING, ''Aucun document pertinent trouv'' @ e_acute)]\<rparr>)
          else (case invoke E
                       (SYSTEM_PROMPT_format
                          (build_context
                             (relevant_docs rs (or_default k (retriever_k (settings E))))) q)
                       None
                       (w2\<lparr>logged := logged w2 @ [(DEBUG, ''G'' @ e_acute @ ''n'' @ e_acute
                              @ ''ration de la r'' @ e_acute @ ''ponse'')]\<rparr>) of
                  (Inl e, w4) \<Rightarrow>
                    (Inl e, w4\<lparr>logged := logged w4
                        @ [(ERROR, ''Erreur lors du traitement de la question: ''
                                   @ str_of e)]\<rparr>)
                | (Inr a, w4) \<Rightarrow>
                    (Inr \<lparr>answer = a,
                          sources = relevant_docs rs (or_default k (retriever_k (settings E))),
                          has_context = True\<rparr>, w4)))"
  by (simp add: query_def search_with_scores_default try_except_def bind_def logger_def ret_def
      raise_def Let_def split: prod.splits sum.splits)

lemma fst_invoke_world:
  "client_loaded w' = client_loaded w \<Longrightarrow> fst (invoke E p sp w') = fst (invoke E p sp w)"
  by (simp add: fst_invoke)

lemma stream_outcome:
  "snd (fst (stream E p sp w)) =
     (if client_loaded w \<or> openai_api_key (settings E) \<noteq> []
      then (case snd (chat_stream E (build_messages p sp)) of None \<Rightarrow> Inr () | Some e \<Rightarrow> Inl e)
      else Inl (ValueError KEY_MISSING))"
  by (simp add: stream_def bind_def logger_def client_def Let_def split: option.splits)

lemma stream_outcome_world:
  "client_loaded w' = client_loaded w \<Longrightarrow>
     snd (fst (stream E p sp w')) = snd (fst (stream E p sp w))"
  by (simp add: stream_outcome)

lemma query_propagates:
  assumes "fst (search_with_scores E q k w) = Inl e
           \<or> (\<exists>rs. fst (search_with_scores E q k w) = Inr rs
                 \<and> relevant_docs rs (or_default k (retriever_k (settings E))) \<noteq> []
                 \<and> fst (invoke E (SYSTEM_PROMPT_format (build_context
                          (relevant_docs rs (or_default k (retriever_k (settings E))))) q)
                        None w) = Inl e)"
  shows "fst (query E q k w) = Inl e
         \<and> (ERROR, ''Erreur lors du traitement de la question: '' @ str_of e)
             \<in> set (logged (snd (query E q k w)))"
proof -
  let ?w1 = "w\<lparr>logged := logged w @ [(DEBUG, ''Recherche de contexte pour: '' @ quote
                 @ take 50 q @ ''...'' @ quote)]\<rparr>"
  obtain r w2 where s: "search_with_scores E q k ?w1 = (r, w2)"
    by (cases "search_with_scores E q k ?w1")
  have "fst (search_with_scores E q k ?w1) = fst (search_with_scores E q k w)"
    by (rule fst_search_with_scores_logged)
  then have r: "r = fst (search_with_scores E q k w)"
    unfolding s by simp
  have cl: "client_loaded w2 = client_loaded w"
    using search_with_scores_keeps(3) [of E q k ?w1] s by simp
  from assms show ?thesis
  proof
    assume "fst (search_with_scores E q k w) = Inl e"
    then show ?thesis using s r unfolding query_unfold by simp
  next
    assume "\<exists>rs. fst (search_with_scores E q k w) = Inr rs
                 \<and> relevant_docs rs (or_default k (retriever_k (settings E))) \<noteq> []
                 \<and> fst (invoke E (SYSTEM_PROMPT_format (build_context
                          (relevant_docs rs (or_default k (retriever_k (settings E))))) q)
                        None w) = Inl e"
    then obtain rs where rs: "fst (search_with_scores E q k w) = Inr rs"
      and ne: "relevant_docs rs (or_default k (retriever_k (settings E))) \<noteq> []"
      and inv: "fst (invoke E (SYSTEM_PROMPT_format (build_context
                          (relevant_docs rs (or_default k (retriever_k (settings E))))) q)
                        None w) = Inl e"
      by blast
    let ?p = "SYSTEM_PROMPT_format (build_context
                (relevant_docs rs (or_default k (retriever_k (settings E))))) q"
    let ?w3 = "w2\<lparr>logged := logged w2 @ [(DEBUG, ''G'' @ e_acute @ ''n'' @ e_acute
                              @ ''ration de la r'' @ e_acute @ ''ponse'')]\<rparr>"
    obtain y w4 where i: "invoke E ?p None ?w3 = (y, w4)"
      by (cases "invoke E ?p None ?w3")
    have "client_loaded ?w3 = client_loaded w" using cl by simp
    then have "fst (invoke E ?p None ?w3) = fst (invoke E ?p None w)"
      by (rule fst_invoke_world)
    then have "y = fst (invoke E ?p None w)"
      using i by simp
    then have y: "y = Inl e" using inv by simp
    show ?thesis using s r rs ne i y unfolding query_unfold by simp
  qed
qed

lemma query_stream_propagates:
  assumes "fst (search_with_scores E q k w) = Inl e
           \<or> (\<exists>rs. fst (search_with_scores E q k w) = Inr rs
                 \<and> relevant_docs rs (or_default k (retriever_k (settings E))) \<noteq> []
                 \<and> snd (fst (stream E (SYSTEM_PROMPT_format (build_context
                          (relevant_docs rs (or_default k (retriever_k (settings E))))) q)
                        None w)) = Inl e)"
  shows "snd (fst (query_stream E q k w)) = Inl e
         \<and> (ERROR, ''Erreur lors du streaming: '' @ str_of e)
             \<in> set (logged (snd (query_stream E q k w)))"
proof -
  obtain r w2 where s: "search_with_scores E q k w = (r, w2)"
    by (cases "search_with_scores E q k w")
  have cl: "client_loaded w2 = client_loaded w"
    using search_with_scores_keeps(3) [of E q k w] s by simp
  from assms show ?thesis
  proof
    assume "fst (search_with_scores E q k w) = Inl e"
    then show ?thesis
      using s by (simp add: query_stream_def search_with_scores_default logger_def Let_def)
  next
    assume "\<exists>rs. fst (search_with_scores E q k w) = Inr rs
                 \<and> relevant_docs rs (or_default k (retriever_k (settings E))) \<noteq> []
                 \<and> snd (fst (stream E (SYSTEM_PROMPT_format (build_context
                          (relevant_docs rs (or_default k (retriever_k (settings E))))) q)
                        None w)) = Inl e"
    then obtain rs where rs: "fst (search_with_scores E q k w) = Inr rs"
      and ne: "relevant_docs rs (or_default k (retriever_k (settings E))) \<noteq> []"
      and st: "snd (fst (stream E (SYSTEM_PROMPT_format (build_context
                          (relevant_docs rs (or_default k (retriever_k (settings E))))) q)
                        None w)) = Inl e"
      by blast
    let ?p = "SYSTEM_PROMPT_format (build_context
                (relevant_docs rs (or_default k (retriever_k (settings E))))) q"
    obtain ys y w4 where i: "stream E ?p None w2 = ((ys, y), w4)"
      by (cases "stream E ?p None w2") auto
    have "snd (fst (stream E ?p None w2)) = snd (fst (stream E ?p None w))"
      using cl by (rule stream_outcome_world)
    then have "y = snd (fst (stream E ?p None w))"
      using i by simp
    then have y: "y = Inl e" using st by simp
    show ?thesis
      using s rs ne i y
      by (simp add: query_stream_def search_with_scores_default logger_def Let_def)
  qed
qed

lemma fst_add_documents:
  "fst (add_documents E docs src w) =
     (if store_usable E w
      then (case embed_documents E (map page_content (stamped src docs)) of
              Inl e \<Rightarrow> Inl e
            | Inr _ \<Rightarrow> if docs = [] then Inl (empty_batch_fault E)
                       else Inr [next_id w ..< next_id w + length docs])
      else Inl (ValueError KEY_MISSING))"
proof -
  have body: "add_documents E docs src w =
     try_except
       (bind (logger INFO (''Ajout de '' @ str_nat (length (stamped src docs)) @ '' documents ''
                              @ a_grave @ '' la base''))
             (\<lambda>_. bind (vectorstore E)
                (\<lambda>_. bind (chroma_add_documents E (stamped src docs))
                   (\<lambda>ids. bind (logger INFO (str_nat (length ids) @ '' documents ajout''
                                   @ e_acute @ ''s avec succ'' @ e_grave @ ''s''))
                      (\<lambda>_. ret ids)))))
       (\<lambda>e. bind (logger ERROR (''Erreur lors de l'ajout des documents: '' @ str_of e))
               (\<lambda>_. raise e)) w"
    by (simp add: add_documents_def stamped_def Let_def)
  show ?thesis
    unfolding body
    by (cases "docs = []")
      (simp_all add: try_except_def bind_def ret_def raise_def logger_def
        chroma_add_documents_def vectorstore_cases store_usable_def length_stamped stamped_Nil
        Let_def split: sum.splits)
qed

lemma add_documents_failed:
  assumes "fst (add_documents E docs src w) = Inl e"
  shows "collection (snd (add_documents E docs src w)) = collection w"
proof -
  have body: "add_documents E docs src w =
     try_except
       (bind (logger INFO (''Ajout de '' @ str_nat (length (stamped src docs)) @ '' documents ''
                              @ a_grave @ '' la base''))
             (\<lambda>_. bind (vectorstore E)
                (\<lambda>_. bind (chroma_add_documents E (stamped src docs))
                   (\<lambda>ids. bind (logger INFO (str_nat (length ids) @ '' documents ajout''
                                   @ e_acute @ ''s avec succ'' @ e_grave @ ''s''))
                      (\<lambda>_. ret ids)))))
       (\<lambda>e. bind (logger ERROR (''Erreur lors de l'ajout des documents: '' @ str_of e))
               (\<lambda>_. raise e)) w"
    by (simp add: add_documents_def stamped_def Let_def)
  show ?thesis
    using assms unfolding body
    by (simp add: try_except_def bind_def ret_def raise_def logger_def chroma_add_documents_def
        vectorstore_cases Let_def split: sum.splits if_splits)
qed

lemma extract_text_flags:
  "store_usable E (snd (extract_text E fi w)) = store_usable E w"
  by (auto simp: extract_text_def extract_from_html_def extract_from_csv_def raise_def ret_def
      bind_def logger_def store_usable_def split: option.splits sum.splits)

lemma process_file_never_raises: "fst (process_file E fi w) \<noteq> Inl e"
  by (simp add: process_file_def try_except_def bind_def ret_def logger_def
      split: prod.splits sum.splits)

lemma process_file_reports:
  assumes x: "fst (extract_text E fi w) = Inr raw"
    and blank: "strip raw \<noteq> []"
    and long: "\<not> length (clean cleaner (Some raw)) < 50"
    and chunks: "split_text E (clean cleaner (Some raw)) (name fi) \<noteq> []"
    and add: "fst (add_documents E (split_text E (clean cleaner (Some raw)) (name fi))
                     (Some (name fi)) w) = Inl e"
  shows "fst (process_file E fi w)
           = Inr \<lparr>success = False, source_id = name fi, chunks_count = 0,
                  message = ''Erreur lors du traitement: '' @ str_of e\<rparr>
         \<and> (ERROR, ''Erreur traitement '' @ name fi @ '': '' @ str_of e)
             \<in> set (logged (snd (process_file E fi w)))
         \<and> collection (snd (process_file E fi w)) = collection w"
proof -
  let ?w1 = "w\<lparr>logged := logged w @ [(INFO, ''Traitement du fichier: '' @ name fi)]\<rparr>"
  let ?chunks = "split_text E (clean cleaner (Some raw)) (name fi)"
  obtain r w2 where e: "extract_text E fi ?w1 = (r, w2)"
    by (cases "extract_text E fi ?w1")
  have "fst (extract_text E fi ?w1) = fst (extract_text E fi w)"
    by (rule extract_text_world(1))
  then have r: "r = Inr raw" using e x by simp
  have c2: "collection w2 = collection w"
    using extract_text_world(2) [of E fi ?w1] e by simp
  have "store_usable E (snd (extract_text E fi ?w1)) = store_usable E ?w1"
    by (rule extract_text_flags)
  then have u2: "store_usable E w2 = store_usable E w"
    using e by (simp add: store_usable_def)
  obtain y w3 where a: "add_documents E ?chunks (Some (name fi)) w2 = (y, w3)"
    by (cases "add_documents E ?chunks (Some (name fi)) w2")
  have "fst (add_documents E ?chunks (Some (name fi)) w2) = Inl e"
    using add u2 by (auto simp: fst_add_documents split: if_splits sum.splits)
  then have y: "y = Inl e" and c3: "collection w3 = collection w2"
    using a add_documents_failed [of E ?chunks "Some (name fi)" w2 e] by simp_all
  have n: "raw \<noteq> []"
    using blank by (auto simp: strip_def lstrip_def rstrip_def)
  show ?thesis
    using e r n blank long chunks a y c2 c3
    by (simp add: process_file_def try_except_def bind_def ret_def logger_def failure_def Let_def)
qed

lemma process_file_extract_error:
  assumes "fst (extract_text E fi w) = Inl e"
  shows "fst (process_file E fi w)
           = Inr \<lparr>success = False, source_id = name fi, chunks_count = 0,
                  message = ''Erreur lors du traitement: '' @ str_of e\<rparr>
         \<and> (ERROR, ''Erreur traitement '' @ name fi @ '': '' @ str_of e)
             \<in> set (logged (snd (process_file E fi w)))
         \<and> collection (snd (process_file E fi w)) = collection w"
proof -
  let ?w1 = "w\<lparr>logged := logged w @ [(INFO, ''Traitement du fichier: '' @ name fi)]\<rparr>"
  obtain r w2 where x: "extract_text E fi ?w1 = (r, w2)"
    by (cases "extract_text E fi ?w1")
  have "fst (extract_text E fi ?w1) = fst (extract_text E fi w)"
    by (rule extract_text_world(1))
  then have r: "r = Inl e" using x assms by simp
  have c2: "collection w2 = collection w"
    using extract_text_world(2) [of E fi ?w1] x by simp
  show ?thesis
    using x r c2
    by (simp add: process_file_def try_except_def bind_def ret_def logger_def failure_def)
qed

lemma embed_text_propagates:
  assumes "embed_query E t = Inl e"
    and "embeddings_loaded w \<or> openai_api_key (settings E) \<noteq> []"
  shows "fst (embed_text E t w) = Inl e
         \<and> (ERROR, ''Erreur lors de la g'' @ e_acute @ ''n'' @ e_acute
                   @ ''ration de l'embedding: '' @ str_of e)
             \<in> set (logged (snd (embed_text E t w)))"
  using assms
  by (auto simp: embed_text_def try_except_def bind_def lift_def raise_def logger_def
      embeddings_def)

text \<open>
  C3, as amended. In \<open>query\<close> and in \<open>query_stream\<close>, an error raised by the store's
  search (which embeds the question) or by the chat client reaches the caller as it is,
  after an entry in the log at level ERROR. In \<open>process_file\<close> no error reaches the
  caller: an error of the extraction (an unreadable file, a CSV that cannot be read) and
  an error of \<open>add_documents\<close> (the embedding client or the store) are logged at level
  ERROR and turned into a result with \<open>success = False\<close> and the message
  \<open>Erreur lors du traitement:\<close> followed by the text of the error; nothing is inserted.
  These are the two places of \<open>process_file\<close> where an exception can arise.
  \<open>embed_text\<close> itself logs and raises again what the embedding endpoint raised.
\<close>

theorem errors_propagate_from_queries_not_from_ingestion:
  "((fst (search_with_scores E q k w) = Inl e
      \<or> (\<exists>rs. fst (search_with_scores E q k w) = Inr rs
            \<and> relevant_docs rs (or_default k (retriever_k (settings E))) \<noteq> []
            \<and> fst (invoke E (SYSTEM_PROMPT_format (build_context
                     (relevant_docs rs (or_default k (retriever_k (settings E))))) q)
                   None w) = Inl e))
     \<longrightarrow> fst (query E q k w) = Inl e
         \<and> (ERROR, ''Erreur lors du traitement de la question: '' @ str_of e)
             \<in> set (logged (snd (query E q k w))))
   \<and> ((fst (search_with_scores E q k w) = Inl e
        \<or> (\<exists>rs. fst (search_with_scores E q k w) = Inr rs
              \<and> relevant_docs rs (or_default k (retriever_k (settings E))) \<noteq> []
              \<and> snd (fst (stream E (SYSTEM_PROMPT_format (build_context
                       (relevant_docs rs (or_default k (retriever_k (settings E))))) q)
                     None w)) = Inl e))
       \<longrightarrow> snd (fst (query_stream E q k w)) = Inl e
           \<and> (ERROR, ''Erreur lors du streaming: '' @ str_of e)
               \<in> set (logged (snd (query_stream E q k w))))
   \<and> fst (process_file E fi w) \<noteq> Inl e
   \<and> (fst (extract_text E fi w) = Inl e
       \<longrightarrow> fst (process_file E fi w)
             = Inr \<lparr>success = False, source_id = name fi, chunks_count = 0,
                    message = ''Erreur lors du traitement: '' @ str_of e\<rparr>
           \<and> (ERROR, ''Erreur traitement '' @ name fi @ '': '' @ str_of e)
               \<in> set (logged (snd (process_file E fi w)))
           \<and> collection (snd (process_file E fi w)) = collection w)
   \<and> (fst (extract_text E fi w) = Inr raw
        \<and> strip raw \<noteq> []
        \<and> \<not> length (clean cleaner (Some raw)) < 50
        \<and> split_text E (clean cleaner (Some raw)) (name fi) \<noteq> []
        \<and> fst (add_documents E (split_text E (clean cleaner (Some raw)) (name fi))
                 (Some (name fi)) w) = Inl e
       \<longrightarrow> fst (process_file E fi w)
             = Inr \<lparr>success = False, source_id = name fi, chunks_count = 0,
                    message = ''Erreur lors du traitement: '' @ str_of e\<rparr>
           \<and> (ERROR, ''Erreur traitement '' @ name fi @ '': '' @ str_of e)
               \<in> set (logged (snd (process_file E fi w)))
           \<and> collection (snd (process_file E fi w)) = collection w)
   \<and> (embed_query E t = Inl e
        \<and> (embeddings_loaded w \<or> openai_api_key (settings E) \<noteq> [])
       \<longrightarrow> fst (embed_text E t w) = Inl e
           \<and> (ERROR, ''Erreur lors de la g'' @ e_acute @ ''n'' @ e_acute
                     @ ''ration de l'embedding: '' @ str_of e)
               \<in> set (logged (snd (embed_text E t w))))"
  using query_propagates [of E q k w e] query_stream_propagates [of E q k w e]
    process_file_never_raises [of E fi w e] process_file_reports [of E fi w raw e]
    process_file_extract_error [of E fi w e] embed_text_propagates [of E t e w]
  by blast

text \<open>
  C3, as stated, fails for ingestion: without an API key, or with the embedding endpoint
  down, \<open>add_documents\<close> raises and \<open>process_file\<close> returns a failure result instead
  of raising.
\<close>

theorem ingestion_error_counterexample:
  "fst (add_documents no_key_env
          (split_text no_key_env (clean cleaner (Some long_text)) ''bail.txt'')
          (Some ''bail.txt'') fresh_world)
     = Inl (ValueError KEY_MISSING)
   \<and> fst (process_file no_key_env bail_file fresh_world)
       = Inr \<lparr>success = False, source_id = ''bail.txt'', chunks_count = 0,
              message = ''Erreur lors du traitement: '' @ KEY_MISSING\<rparr>
   \<and> fst (add_documents embedding_down_env
            (split_text embedding_down_env (clean cleaner (Some long_text)) ''bail.txt'')
            (Some ''bail.txt'') fresh_world)
       = Inl (BackendError ''Batch Error'')
   \<and> fst (process_file embedding_down_env bail_file fresh_world)
       = Inr \<lparr>success = False, source_id = ''bail.txt'', chunks_count = 0,
              message = ''Erreur lors du traitement: Batch Error''\<rparr>"
  by code_simp

text \<open>
  A missing key stops both kinds of query at the search; a chat model that is down stops
  them at the generation; an embedding endpoint that is down makes the ingestion of a
  file report a failure.
\<close>

theorem errors_propagate_from_queries_not_from_ingestion_witness:
  "fst (search_with_scores no_key_env ''Quelle duree ?'' None fresh_world)
     = Inl (ValueError KEY_MISSING)
   \<and> fst (query no_key_env ''Quelle duree ?'' None fresh_world) = Inl (ValueError KEY_MISSING)
   \<and> snd (fst (query_stream no_key_env ''Quelle duree ?'' None fresh_world))
       = Inl (ValueError KEY_MISSING)
   \<and> fst (search_with_scores chat_down_env ''Quelle duree ?'' None one_segment)
       = Inr [(bail, 1 / 10)]
   \<and> fst (query chat_down_env ''Quelle duree ?'' None one_segment)
       = Inl (BackendError ''LLM API Error'')
   \<and> snd (fst (query_stream chat_down_env ''Quelle duree ?'' None one_segment))
       = Inl (BackendError ''Stream Error'')
   \<and> fst (extract_text embedding_down_env bail_file fresh_world) = Inr long_text
   \<and> fst (add_documents embedding_down_env
            (split_text embedding_down_env (clean cleaner (Some long_text)) (name bail_file))
            (Some (name bail_file)) fresh_world)
       = Inl (BackendError ''Batch Error'')
   \<and> fst (process_file embedding_down_env bail_file fresh_world)
       = Inr \<lparr>success = False, source_id = ''bail.txt'', chunks_count = 0,
              message = ''Erreur lors du traitement: Batch Error''\<rparr>
   \<and> collection (snd (process_file embedding_down_env bail_file fresh_world)) = []
   \<and> embed_query embedding_down_env ''Quelle duree ?'' = Inl (BackendError ''API Error'')
   \<and> fst (embed_text embedding_down_env ''Quelle duree ?'' fresh_world)
       = Inl (BackendError ''API Error'')
   \<and> fst (extract_text (sample_env (1 / 2)) missing_file fresh_world)
       = Inl (ValueError ''Impossible de lire le fichier: absent.txt'')
   \<and> fst (process_file (sample_env (1 / 2)) missing_file fresh_world)
       = Inr \<lparr>success = False, source_id = ''absent.txt'', chunks_count = 0,
              message = ''Erreur lors du traitement: Impossible de lire le fichier: absent.txt''\<rparr>"
proof -
  let ?q = "''Quelle duree ?''"
  have s1: "fst (search_with_scores no_key_env ?q None fresh_world)
              = Inl (ValueError KEY_MISSING)"
    by (simp add: fst_search_with_scores store_usable_def no_key_env_def sample_env_def
        fresh_world_def)
  have a: "fst (query no_key_env ?q None fresh_world) = Inl (ValueError KEY_MISSING)
           \<and> snd (fst (query_stream no_key_env ?q None fresh_world))
               = Inl (ValueError KEY_MISSING)"
    using s1 errors_propagate_from_queries_not_from_ingestion
      [where E = no_key_env and q = ?q and k = None and w = fresh_world
         and e = "ValueError KEY_MISSING"]
    by blast
  have s2: "fst (search_with_scores chat_down_env ?q None one_segment) = Inr [(bail, 1 / 10)]"
    by (simp add: fst_search_with_scores store_usable_def chat_down_env_def sample_env_def
        one_segment_def fresh_world_def or_default_def)
  have rel: "relevant_docs [(bail, 1 / 10)]
               (or_default None (retriever_k (settings chat_down_env))) \<noteq> []"
    by (simp add: relevant_docs_def MIN_RELEVANCE_SCORE_def)
  have inv: "fst (invoke chat_down_env p None one_segment) = Inl (BackendError ''LLM API Error'')"
    for p
    by (simp add: fst_invoke chat_down_env_def sample_env_def)
  have str: "snd (fst (stream chat_down_env p None one_segment))
               = Inl (BackendError ''Stream Error'')" for p
    by (simp add: stream_outcome chat_down_env_def sample_env_def)
  have b: "fst (query chat_down_env ?q None one_segment) = Inl (BackendError ''LLM API Error'')"
    using s2 rel inv errors_propagate_from_queries_not_from_ingestion
      [where E = chat_down_env and q = ?q and k = None and w = one_segment
         and e = "BackendError ''LLM API Error''"]
    by blast
  have c: "snd (fst (query_stream chat_down_env ?q None one_segment))
             = Inl (BackendError ''Stream Error'')"
    using s2 rel str errors_propagate_from_queries_not_from_ingestion
      [where E = chat_down_env and q = ?q and k = None and w = one_segment
         and e = "BackendError ''Stream Error''"]
    by blast
  have x: "fst (extract_text embedding_down_env bail_file fresh_world) = Inr long_text"
    by (simp add: extract_text_def embedding_down_env_def sample_env_def bail_file_def ret_def)
  have blank: "strip long_text \<noteq> []" by code_simp
  have long: "\<not> length (clean cleaner (Some long_text)) < 50" by code_simp
  have chunks: "split_text embedding_down_env (clean cleaner (Some long_text)) (name bail_file)
                  \<noteq> []"
    by code_simp
  have add: "fst (add_documents embedding_down_env
                (split_text embedding_down_env (clean cleaner (Some long_text)) (name bail_file))
                (Some (name bail_file)) fresh_world)
             = Inl (BackendError ''Batch Error'')"
    by (simp add: fst_add_documents store_usable_def embedding_down_env_def sample_env_def)
  have d: "fst (process_file embedding_down_env bail_file fresh_world)
             = Inr \<lparr>success = False, source_id = name bail_file, chunks_count = 0,
                    message = ''Erreur lors du traitement: ''
                              @ str_of (BackendError ''Batch Error'')\<rparr>
           \<and> collection (snd (process_file embedding_down_env bail_file fresh_world))
               = collection fresh_world"
    using x blank long chunks add errors_propagate_from_queries_not_from_ingestion
      [where E = embedding_down_env and fi = bail_file and w = fresh_world and raw = long_text
         and e = "BackendError ''Batch Error''"]
    by blast
  have n: "name bail_file = ''bail.txt''" by (simp add: bail_file_def)
  have e: "collection fresh_world = []" by (simp add: fresh_world_def)
  have eq: "embed_query embedding_down_env ?q = Inl (BackendError ''API Error'')"
    and key: "embeddings_loaded fresh_world
              \<or> openai_api_key (settings embedding_down_env) \<noteq> []"
    by (simp_all add: embedding_down_env_def sample_env_def)
  have f: "fst (embed_text embedding_down_env ?q fresh_world) = Inl (BackendError ''API Error'')"
    using eq key errors_propagate_from_queries_not_from_ingestion
      [where E = embedding_down_env and t = ?q and w = fresh_world
         and e = "BackendError ''API Error''"]
    by blast
  have mx: "fst (extract_text (sample_env (1 / 2)) missing_file fresh_world)
              = Inl (ValueError ''Impossible de lire le fichier: absent.txt'')"
    by (simp add: extract_text_def sample_env_def missing_file_def raise_def)
  have mn: "name missing_file = ''absent.txt''" by (simp add: missing_file_def)
  have m: "fst (process_file (sample_env (1 / 2)) missing_file fresh_world)
             = Inr \<lparr>success = False, source_id = name missing_file, chunks_count = 0,
                    message = ''Erreur lors du traitement: ''
                      @ str_of (ValueError ''Impossible de lire le fichier: absent.txt'')\<rparr>"
    using mx errors_propagate_from_queries_not_from_ingestion
      [where E = "sample_env (1 / 2)" and fi = missing_file and w = fresh_world
         and e = "ValueError ''Impossible de lire le fichier: absent.txt''"]
    by blast
  have m': "fst (process_file (sample_env (1 / 2)) missing_file fresh_world)
             = Inr \<lparr>success = False, source_id = ''absent.txt'', chunks_count = 0,
                    message = ''Erreur lors du traitement: Impossible de lire le fichier: absent.txt''\<rparr>"
    using m unfolding mn by simp
  show ?thesis
    using s1 a s2 b c x add d eq f mx m' unfolding n e by simp
qed

section \<open>The default number of results\<close>

lemma fst_search:
  "fst (search E q k f w) =
     (if store_usable E w
      then similarity_search E (collection w) q (or_default k (retriever_k (settings E))) f
      else Inl (ValueError KEY_MISSING))"
  by (simp add: search_def try_except_def bind_def ret_def raise_def logger_def
      vectorstore_cases store_usable_def Let_def split: sum.splits prod.splits)

lemma fst_query:
  "fst (query E q k w) =
     (case fst (search_with_scores E q k w) of
        Inl e \<Rightarrow> Inl e
      | Inr rs \<Rightarrow>
          if relevant_docs rs (or_default k (retriever_k (settings E))) = []
          then Inr \<lparr>answer = NO_CONTEXT_MESSAGE, sources = [], has_context = False\<rparr>
          else (case fst (invoke E
                            (SYSTEM_PROMPT_format
                               (build_context
                                  (relevant_docs rs (or_default k (retriever_k (settings E)))))
                               q)
                            None w) of
                  Inl e \<Rightarrow> Inl e
                | Inr a \<Rightarrow>
                    Inr \<lparr>answer = a,
                         sources = relevant_docs rs (or_default k (retriever_k (settings E))),
                         has_context = True\<rparr>))"
proof -
  let ?w1 = "w\<lparr>logged := logged w @ [(DEBUG, ''Recherche de contexte pour: '' @ quote
                 @ take 50 q @ ''...'' @ quote)]\<rparr>"
  obtain r w2 where s: "search_with_scores E q k ?w1 = (r, w2)"
    by (cases "search_with_scores E q k ?w1")
  have "fst (search_with_scores E q k ?w1) = fst (search_with_scores E q k w)"
    by (rule fst_search_with_scores_logged)
  then have r: "fst (search_with_scores E q k w) = r"
    unfolding s by simp
  have cl: "client_loaded w2 = client_loaded w"
    using search_with_scores_keeps(3) [of E q k ?w1] s by simp
  show ?thesis
  proof (cases r)
    case (Inl e)
    then show ?thesis using s unfolding query_unfold r by simp
  next
    case (Inr rs)
    let ?p = "SYSTEM_PROMPT_format (build_context
                (relevant_docs rs (or_default k (retriever_k (settings E))))) q"
    let ?w3 = "w2\<lparr>logged := logged w2 @ [(DEBUG, ''G'' @ e_acute @ ''n'' @ e_acute
                              @ ''ration de la r'' @ e_acute @ ''ponse'')]\<rparr>"
    obtain y w4 where i: "invoke E ?p None ?w3 = (y, w4)"
      by (cases "invoke E ?p None ?w3")
    have "client_loaded ?w3 = client_loaded w" using cl by simp
    then have "fst (invoke E ?p None ?w3) = fst (invoke E ?p None w)"
      by (rule fst_invoke_world)
    then have y: "fst (invoke E ?p None w) = y"
      using i by simp
    show ?thesis
      using s Inr i y unfolding query_unfold r by (cases y) simp_all
  qed
qed

lemma stream_yielded_world:
  "client_loaded w' = client_loaded w \<Longrightarrow>
     fst (fst (stream E p sp w')) = fst (fst (stream E p sp w))"
  by (simp add: stream_yielded)

lemma fst_query_stream:
  "fst (query_stream E q k w) =
     (case fst (search_with_scores E q k w) of
        Inl e \<Rightarrow> ([], Inl e)
      | Inr rs \<Rightarrow>
          if relevant_docs rs (or_default k (retriever_k (settings E))) = []
          then ([NO_CONTEXT_MESSAGE],
                Inr \<lparr>answer = NO_CONTEXT_MESSAGE, sources = [], has_context = False\<rparr>)
          else (fst (fst (stream E
                            (SYSTEM_PROMPT_format
                               (build_context
                                  (relevant_docs rs (or_default k (retriever_k (settings E)))))
                               q)
                            None w)),
                case snd (fst (stream E
                                 (SYSTEM_PROMPT_format
                                    (build_context
                                       (relevant_docs rs
                                          (or_default k (retriever_k (settings E)))))
                                    q)
                                 None w)) of
                  Inl e \<Rightarrow> Inl e
                | Inr u \<Rightarrow>
                    Inr \<lparr>answer = concat (fst (fst (stream E
                            (SYSTEM_PROMPT_format
                               (build_context
                                  (relevant_docs rs (or_default k (retriever_k (settings E)))))
                               q)
                            None w))),
                         sources = relevant_docs rs (or_default k (retriever_k (settings E))),
                         has_context = True\<rparr>))"
proof -
  obtain r w2 where s: "search_with_scores E q k w = (r, w2)"
    by (cases "search_with_scores E q k w")
  have cl: "client_loaded w2 = client_loaded w"
    using search_with_scores_keeps(3) [of E q k w] s by simp
  show ?thesis
  proof (cases r)
    case (Inl e)
    then show ?thesis
      using s by (simp add: query_stream_def search_with_scores_default logger_def Let_def)
  next
    case (Inr rs)
    let ?p = "SYSTEM_PROMPT_format (build_context
                (relevant_docs rs (or_default k (retriever_k (settings E))))) q"
    obtain ys y w4 where i: "stream E ?p None w2 = ((ys, y), w4)"
      by (cases "stream E ?p None w2") auto
    have "snd (fst (stream E ?p None w2)) = snd (fst (stream E ?p None w))"
      using cl by (rule stream_outcome_world)
    then have y: "snd (fst (stream E ?p None w)) = y" using i by simp
    have "fst (fst (stream E ?p None w2)) = fst (fst (stream E ?p None w))"
      using cl by (rule stream_yielded_world)
    then have ys: "fst (fst (stream E ?p None w)) = ys" using i by simp
    show ?thesis
      using s Inr i y ys
      by (cases y)
        (simp_all add: query_stream_def search_with_scores_default logger_def Let_def)
  qed
qed

text \<open>
  C9. An explicit \<open>k = 0\<close> is treated as an omitted \<open>k\<close> by \<open>query\<close>, \<open>query_stream\<close>,
  \<open>search\<close> and \<open>search_with_scores\<close>: the call is the call with \<open>None\<close>, and the
  number of results the store is asked for is the configured \<open>retriever_k\<close>. With
  \<open>k = 0\<close>, \<open>search\<close> and \<open>search_with_scores\<close> return what the store's search
  returns for \<open>retriever_k\<close>, and \<open>query\<close> and \<open>query_stream\<close> select from those
  results (the fallback takes the first \<open>retriever_k\<close> of them) and answer from the
  selection.
\<close>

theorem k_zero_is_default:
  "query E q (Some 0) = query E q None
   \<and> query_stream E q (Some 0) = query_stream E q None
   \<and> search E q (Some 0) f = search E q None f
   \<and> search_with_scores E q (Some 0) = search_with_scores E q None
   \<and> query E q (Some 0) = query E q (Some (retriever_k (settings E)))
   \<and> query_stream E q (Some 0) = query_stream E q (Some (retriever_k (settings E)))
   \<and> search E q (Some 0) f = search E q (Some (retriever_k (settings E))) f
   \<and> search_with_scores E q (Some 0) = search_with_scores E q (Some (retriever_k (settings E)))
   \<and> fst (search_with_scores E q (Some 0) w)
       = (if store_usable E w
          then similarity_search_with_score E (collection w) q (retriever_k (settings E))
          else Inl (ValueError KEY_MISSING))
   \<and> fst (search E q (Some 0) f w)
       = (if store_usable E w
          then similarity_search E (collection w) q (retriever_k (settings E)) f
          else Inl (ValueError KEY_MISSING))
   \<and> fst (query E q (Some 0) w)
       = (case (if store_usable E w
                then similarity_search_with_score E (collection w) q (retriever_k (settings E))
                else Inl (ValueError KEY_MISSING)) of
            Inl e \<Rightarrow> Inl e
          | Inr rs \<Rightarrow>
              if relevant_docs rs (retriever_k (settings E)) = []
              then Inr \<lparr>answer = NO_CONTEXT_MESSAGE, sources = [], has_context = False\<rparr>
              else (case fst (invoke E
                                (SYSTEM_PROMPT_format
                                   (build_context (relevant_docs rs (retriever_k (settings E))))
                                   q)
                                None w) of
                      Inl e \<Rightarrow> Inl e
                    | Inr a \<Rightarrow>
                        Inr \<lparr>answer = a,
                             sources = relevant_docs rs (retriever_k (settings E)),
                             has_context = True\<rparr>))
   \<and> fst (query_stream E q (Some 0) w)
       = (case (if store_usable E w
                then similarity_search_with_score E (collection w) q (retriever_k (settings E))
                else Inl (ValueError KEY_MISSING)) of
            Inl e \<Rightarrow> ([], Inl e)
          | Inr rs \<Rightarrow>
              if relevant_docs rs (retriever_k (settings E)) = []
              then ([NO_CONTEXT_MESSAGE],
                    Inr \<lparr>answer = NO_CONTEXT_MESSAGE, sources = [], has_context = False\<rparr>)
              else (fst (fst (stream E
                                (SYSTEM_PROMPT_format
                                   (build_context (relevant_docs rs (retriever_k (settings E))))
                                   q)
                                None w)),
                    case snd (fst (stream E
                                     (SYSTEM_PROMPT_format
                                        (build_context
                                           (relevant_docs rs (retriever_k (settings E))))
                                        q)
                                     None w)) of
                      Inl e \<Rightarrow> Inl e
                    | Inr u \<Rightarrow>
                        Inr \<lparr>answer = concat (fst (fst (stream E
                                (SYSTEM_PROMPT_format
                                   (build_context (relevant_docs rs (retriever_k (settings E))))
                                   q)
                                None w))),
                             sources = relevant_docs rs (retriever_k (settings E)),
                             has_context = True\<rparr>))"
proof -
  have d: "or_default (Some 0) (retriever_k (settings E)) = retriever_k (settings E)"
    by (simp add: or_default_def)
  have eqs: "query E q (Some 0) = query E q None"
    "query_stream E q (Some 0) = query_stream E q None"
    "search E q (Some 0) f = search E q None f"
    "search_with_scores E q (Some 0) = search_with_scores E q None"
    "query E q (Some 0) = query E q (Some (retriever_k (settings E)))"
    "query_stream E q (Some 0) = query_stream E q (Some (retriever_k (settings E)))"
    "search E q (Some 0) f = search E q (Some (retriever_k (settings E))) f"
    "search_with_scores E q (Some 0) = search_with_scores E q (Some (retriever_k (settings E)))"
    by (simp_all add: query_def query_stream_def search_def search_with_scores_def
        or_default_def)
  have s: "fst (search_with_scores E q (Some 0) w)
             = (if store_usable E w
                then similarity_search_with_score E (collection w) q (retriever_k (settings E))
                else Inl (ValueError KEY_MISSING))"
    unfolding fst_search_with_scores d ..
  have p: "fst (search E q (Some 0) f w)
             = (if store_usable E w
                then similarity_search E (collection w) q (retriever_k (settings E)) f
                else Inl (ValueError KEY_MISSING))"
    unfolding fst_search d ..
  note qy = fst_query [of E q "Some 0" w, unfolded d s]
  note qs = fst_query_stream [of E q "Some 0" w, unfolded d s]
  show ?thesis
    using eqs s p qy qs by (intro conjI)
qed

text \<open>
  Three indexed segments and \<open>k = 0\<close>: the three of them come back, not zero results.
\<close>

theorem k_zero_is_default_witness:
  "fst (search_with_scores (sample_env (1 / 2)) ''Quelle duree ?'' (Some 0) two_sources)
     = Inr [(bail, 1 / 2), (statuts, 1 / 2), (bail, 1 / 2)]
   \<and> fst (search (sample_env (1 / 2)) ''Quelle duree ?'' (Some 0) None two_sources)
       = Inr [bail, statuts, bail]
   \<and> fst (query (sample_env (1 / 2)) ''Quelle duree ?'' (Some 0) two_sources)
       = Inr \<lparr>answer = ''Neuf ans.'', sources = [bail, statuts, bail], has_context = True\<rparr>
   \<and> fst (query_stream (sample_env (1 / 2)) ''Quelle duree ?'' (Some 0) two_sources)
       = ([''Neuf'', '' ans.''],
          Inr \<lparr>answer = ''Neuf ans.'', sources = [bail, statuts, bail], has_context = True\<rparr>)"
proof -
  let ?E = "sample_env (1 / 2)"
  let ?q = "''Quelle duree ?''"
  note t = k_zero_is_default [of ?E ?q None two_sources, THEN conjunct2, THEN conjunct2,
      THEN conjunct2, THEN conjunct2, THEN conjunct2, THEN conjunct2, THEN conjunct2,
      THEN conjunct2]
  have u: "store_usable ?E two_sources"
    by (simp add: store_usable_def sample_env_def)
  have rk: "retriever_k (settings ?E) = 4"
    by (simp add: sample_env_def)
  have st: "similarity_search_with_score ?E (collection two_sources) ?q 4
              = Inr [(bail, 1 / 2), (statuts, 1 / 2), (bail, 1 / 2)]"
    by (simp add: sample_env_def two_sources_def fresh_world_def)
  have sd: "similarity_search ?E (collection two_sources) ?q 4 None = Inr [bail, statuts, bail]"
    by (simp add: sample_env_def two_sources_def fresh_world_def)
  have rel: "relevant_docs [(bail, 1 / 2), (statuts, 1 / 2), (bail, 1 / 2)] 4
               = [bail, statuts, bail]"
    by (simp add: relevant_docs_def MIN_RELEVANCE_SCORE_def slice_to_def)
  have inv: "fst (invoke ?E p None two_sources) = Inr ''Neuf ans.''" for p
    by (simp add: fst_invoke sample_env_def)
  have sy: "fst (fst (stream ?E p None two_sources)) = [''Neuf'', '' ans.'']" for p
    by (simp add: stream_yielded sample_env_def)
  have so: "snd (fst (stream ?E p None two_sources)) = Inr ()" for p
    by (simp add: stream_outcome sample_env_def)
  show ?thesis
    using t unfolding rk by (simp add: u st sd rel inv sy so)
qed

end
